(* ===== verification/Prelude.thy ===== *)
theory Prelude
  imports Main
begin

text \<open>
  Shared vocabulary of the development: the theorem collections that the
  component theories fill, association lists read the way a JavaScript object
  literal is read (a later binding of a key overrides an earlier one), and the
  character classes used by the recognisers of CSS values.
\<close>

section \<open>Theorem collections\<close>

named_theorems cfg_defs "defining equations of the configuration's literal tables"
named_theorems lex_defs "defining equations of the character classes and scanners"

section \<open>Association lists with JavaScript's override rule\<close>

text \<open>
  In an object literal \<^verbatim>\<open>{a: 1, a: 2}\<close> the last binding of a key wins.
  \<open>lookup_last\<close> reads an association list that way; \<open>map_of\<close> reads it the
  other way round (first binding wins). The two agree exactly when it does not
  matter, in particular when the keys are distinct.
\<close>

type_synonym ('k, 'v) alist = "('k \<times> 'v) list"

fun lookup_last :: "('k, 'v) alist \<Rightarrow> 'k \<Rightarrow> 'v option" where
  "lookup_last [] k = None"
| "lookup_last ((k', v) # kvs) k =
     (case lookup_last kvs k of
        Some w \<Rightarrow> Some w
      | None \<Rightarrow> if k = k' then Some v else None)"

abbreviation keys_of :: "('k, 'v) alist \<Rightarrow> 'k list" where
  "keys_of kvs \<equiv> map fst kvs"

abbreviation values_of :: "('k, 'v) alist \<Rightarrow> 'v list" where
  "values_of kvs \<equiv> map snd kvs"

lemma lookup_last_None_iff: "lookup_last kvs k = None \<longleftrightarrow> k \<notin> set (keys_of kvs)"
  by (induction kvs) (auto split: option.splits)

lemma lookup_last_SomeD: "lookup_last kvs k = Some v \<Longrightarrow> (k, v) \<in> set kvs"
  by (induction kvs) (auto split: option.splits if_splits)

lemma lookup_last_append:
  "lookup_last (xs @ ys) k =
     (case lookup_last ys k of Some w \<Rightarrow> Some w | None \<Rightarrow> lookup_last xs k)"
  by (induction xs) (auto split: option.splits)

lemma lookup_last_rev: "lookup_last kvs k = map_of (rev kvs) k"
  by (induction kvs) (auto simp: map_add_def split: option.splits)

lemma map_of_distinct_rev:
  "distinct (keys_of kvs) \<Longrightarrow> map_of (rev kvs) = map_of kvs"
proof (induction kvs)
  case Nil
  then show ?case by simp
next
  case (Cons kv kvs)
  obtain k v where kv: "kv = (k, v)" by (cases kv)
  from Cons.prems kv have fresh: "k \<notin> set (keys_of kvs)" and d: "distinct (keys_of kvs)"
    by auto
  from fresh have "map_of kvs k = None"
    by (simp add: map_of_eq_None_iff)
  with Cons.IH [OF d] kv show ?case
    by (auto simp: map_add_def fun_eq_iff split: option.splits)
qed

lemma lookup_last_distinct:
  "distinct (keys_of kvs) \<Longrightarrow> lookup_last kvs k = map_of kvs k"
  by (simp add: lookup_last_rev map_of_distinct_rev)

lemma lookup_last_in_distinct:
  "distinct (keys_of kvs) \<Longrightarrow> (k, v) \<in> set kvs \<Longrightarrow> lookup_last kvs k = Some v"
  by (simp add: lookup_last_distinct)

section \<open>Positions in a list\<close>

text \<open>
  \<open>index_of x xs\<close> is the position of the first \<open>x\<close> in \<open>xs\<close>, and the length of
  \<open>xs\<close> when there is none. The digit value of a character is its position in
  the string of digits, so the facts about digits are instances of the facts
  below and need no enumeration of characters.
\<close>

fun index_of :: "'a \<Rightarrow> 'a list \<Rightarrow> nat" where
  "index_of x [] = 0"
| "index_of x (y # ys) = (if x = y then 0 else Suc (index_of x ys))"

lemma index_of_less: "x \<in> set xs \<Longrightarrow> index_of x xs < length xs"
  by (induction xs) auto

lemma index_of_le: "index_of x xs \<le> length xs"
  by (induction xs) auto

lemma nth_index_of: "x \<in> set xs \<Longrightarrow> xs ! index_of x xs = x"
  by (induction xs) auto

lemma index_of_nth: "distinct xs \<Longrightarrow> n < length xs \<Longrightarrow> index_of (xs ! n) xs = n"
proof (induction xs arbitrary: n)
  case Nil
  then show ?case by simp
next
  case (Cons y ys)
  then show ?case by (cases n) auto
qed

section \<open>Character classes\<close>

text \<open>
  Characters are bytes. Hexadecimal digits are accepted in either case, as CSS
  does; the source writes them in upper case.
\<close>

definition digits :: string where
  [lex_defs]: "digits = ''0123456789''"

definition upper_hex_digits :: string where
  [lex_defs]: "upper_hex_digits = ''0123456789ABCDEF''"

definition lower_hex_digits :: string where
  [lex_defs]: "lower_hex_digits = ''0123456789abcdef''"

definition is_digit :: "char \<Rightarrow> bool" where
  [lex_defs]: "is_digit c \<longleftrightarrow> c \<in> set digits"

definition is_hex_digit :: "char \<Rightarrow> bool" where
  [lex_defs]: "is_hex_digit c \<longleftrightarrow> c \<in> set upper_hex_digits \<or> c \<in> set lower_hex_digits"

definition is_space :: "char \<Rightarrow> bool" where
  [lex_defs]: "is_space c \<longleftrightarrow> c = CHR '' ''"

definition digit_val :: "char \<Rightarrow> nat" where
  [lex_defs]: "digit_val c = index_of c digits"

definition hex_val :: "char \<Rightarrow> nat" where
  [lex_defs]: "hex_val c =
     (if c \<in> set upper_hex_digits then index_of c upper_hex_digits
      else index_of c lower_hex_digits)"

definition digit_char :: "nat \<Rightarrow> char" where
  [lex_defs]: "digit_char n = digits ! n"

lemma length_digits [simp]: "length digits = 10"
  by (simp add: digits_def)

lemma distinct_digits [simp]: "distinct digits"
  by (simp add: digits_def)

lemma length_hex_digits [simp]:
  "length upper_hex_digits = 16" "length lower_hex_digits = 16"
  by (simp_all add: upper_hex_digits_def lower_hex_digits_def)

lemma is_digit_val_less: "is_digit c \<Longrightarrow> digit_val c < 10"
  using index_of_less [of c digits] by (simp add: is_digit_def digit_val_def)

lemma is_hex_digit_val_less: "is_hex_digit c \<Longrightarrow> hex_val c < 16"
  using index_of_less [of c upper_hex_digits] index_of_less [of c lower_hex_digits]
  by (auto simp: is_hex_digit_def hex_val_def)

lemma digit_val_digit_char [simp]: "n < 10 \<Longrightarrow> digit_val (digit_char n) = n"
  by (simp add: digit_val_def digit_char_def index_of_nth)

lemma is_digit_digit_char [simp]: "n < 10 \<Longrightarrow> is_digit (digit_char n)"
  by (simp add: is_digit_def digit_char_def)

lemma digit_char_digit_val [simp]: "is_digit c \<Longrightarrow> digit_char (digit_val c) = c"
  by (simp add: is_digit_def digit_char_def digit_val_def nth_index_of)

lemma is_digit_is_hex_digit: "is_digit c \<Longrightarrow> is_hex_digit c"
  by (auto simp: is_digit_def is_hex_digit_def digits_def upper_hex_digits_def)

section \<open>Decimal spellings of natural numbers\<close>

text \<open>
  \<open>nat_of_digits\<close> reads a string of digits, most significant first;
  \<open>digits_of_nat\<close> writes the canonical spelling, without leading zeros.
\<close>

definition nat_of_digits :: "string \<Rightarrow> nat" where
  "nat_of_digits ds = foldl (\<lambda>n c. 10 * n + digit_val c) 0 ds"

fun digits_of_nat :: "nat \<Rightarrow> string" where
  "digits_of_nat n =
     (if n < 10 then [digit_char n]
      else digits_of_nat (n div 10) @ [digit_char (n mod 10)])"

declare digits_of_nat.simps [simp del]

lemma nat_of_digits_Nil [simp]: "nat_of_digits [] = 0"
  by (simp add: nat_of_digits_def)

lemma nat_of_digits_snoc [simp]:
  "nat_of_digits (ds @ [c]) = 10 * nat_of_digits ds + digit_val c"
  by (simp add: nat_of_digits_def)

lemma nat_of_digits_single [simp]: "nat_of_digits [c] = digit_val c"
  by (simp add: nat_of_digits_def)

lemma nat_of_digits_append:
  "nat_of_digits (ds @ es) = nat_of_digits ds * 10 ^ length es + nat_of_digits es"
proof (induction es rule: rev_induct)
  case Nil
  then show ?case by simp
next
  case (snoc e es)
  have "nat_of_digits (ds @ es @ [e]) = 10 * nat_of_digits (ds @ es) + digit_val e"
    using nat_of_digits_snoc [of "ds @ es" e] by simp
  with snoc show ?case by (simp add: algebra_simps)
qed

lemma nat_of_digits_less: "list_all is_digit ds \<Longrightarrow> nat_of_digits ds < 10 ^ length ds"
proof (induction ds rule: rev_induct)
  case Nil
  then show ?case by simp
next
  case (snoc d ds)
  then have "nat_of_digits ds < 10 ^ length ds" and "digit_val d < 10"
    by (simp_all add: is_digit_val_less)
  then have "10 * nat_of_digits ds + digit_val d < 10 * 10 ^ length ds"
    by arith
  then show ?case by simp
qed

lemma digits_of_nat_small: "n < 10 \<Longrightarrow> digits_of_nat n = [digit_char n]"
  by (simp add: digits_of_nat.simps)

lemma digits_of_nat_large:
  "10 \<le> n \<Longrightarrow> digits_of_nat n = digits_of_nat (n div 10) @ [digit_char (n mod 10)]"
  by (subst digits_of_nat.simps) simp

lemma digits_of_nat_nonempty [simp]: "digits_of_nat n \<noteq> []"
  by (subst digits_of_nat.simps) simp

lemma digits_of_nat_all_digits [simp]: "list_all is_digit (digits_of_nat n)"
proof (induction n rule: digits_of_nat.induct)
  case (1 n)
  show ?case
  proof (cases "n < 10")
    case True
    then show ?thesis by (simp add: digits_of_nat_small)
  next
    case False
    with "1.IH" show ?thesis by (simp add: digits_of_nat_large)
  qed
qed

lemma nat_of_digits_of_nat [simp]: "nat_of_digits (digits_of_nat n) = n"
proof (induction n rule: digits_of_nat.induct)
  case (1 n)
  show ?case
  proof (cases "n < 10")
    case True
    then show ?thesis by (simp add: digits_of_nat_small)
  next
    case False
    with "1.IH" show ?thesis by (simp add: digits_of_nat_large)
  qed
qed

lemma hd_digits_of_nat: "0 < n \<Longrightarrow> hd (digits_of_nat n) \<noteq> CHR ''0''"
proof (induction n rule: digits_of_nat.induct)
  case (1 n)
  show ?case
  proof (cases "n < 10")
    case True
    with "1.prems" have "digit_val (digit_char n) \<noteq> digit_val (CHR ''0'')"
      by (simp add: digit_val_def [of "CHR ''0''"] digits_def)
    then have "digit_char n \<noteq> CHR ''0''" by auto
    with True show ?thesis by (simp add: digits_of_nat_small)
  next
    case False
    then have "0 < n div 10" by simp
    with "1.IH" False have "hd (digits_of_nat (n div 10)) \<noteq> CHR ''0''" by simp
    with False show ?thesis by (simp add: digits_of_nat_large)
  qed
qed

lemma length_digits_of_nat_single: "length (digits_of_nat n) = 1 \<longleftrightarrow> n < 10"
  by (cases "n < 10") (simp_all add: digits_of_nat_small digits_of_nat_large)

end
