(* ===== verification/JS_Value.thy ===== *)
theory JS_Value
  imports Prelude
begin

text \<open>
  The values that the configuration's object literal is built from, and how
  they are read. The literal of \<^verbatim>\<open>src/tailwind.config.js\<close> uses four forms
  of JavaScript value: string literals, number literals, array literals and
  object literals. An object literal is kept as the list of its bindings in
  source order, so that a repeated key and the order of keys stay visible.

  \<open>own_prop\<close> reads one own property, \<open>read_path\<close> a chain of member accesses
  such as \<^verbatim>\<open>theme.extend.colors.background1\<close>. Properties inherited from a
  prototype are outside the model.
\<close>

section \<open>Values\<close>

datatype js_value =
    JString string
  | JNumber int
  | JArray "js_value list"
  | JObject "(string, js_value) alist"

fun is_string :: "js_value \<Rightarrow> bool" where
  "is_string (JString s) = True"
| "is_string v = False"

fun is_number :: "js_value \<Rightarrow> bool" where
  "is_number (JNumber n) = True"
| "is_number v = False"

fun is_array :: "js_value \<Rightarrow> bool" where
  "is_array (JArray vs) = True"
| "is_array v = False"

fun is_object :: "js_value \<Rightarrow> bool" where
  "is_object (JObject kvs) = True"
| "is_object v = False"

fun string_of :: "js_value \<Rightarrow> string option" where
  "string_of (JString s) = Some s"
| "string_of v = None"

fun number_of :: "js_value \<Rightarrow> int option" where
  "number_of (JNumber n) = Some n"
| "number_of v = None"

fun elements_of :: "js_value \<Rightarrow> js_value list option" where
  "elements_of (JArray vs) = Some vs"
| "elements_of v = None"

fun bindings_of :: "js_value \<Rightarrow> (string, js_value) alist option" where
  "bindings_of (JObject kvs) = Some kvs"
| "bindings_of v = None"

lemma is_string_iff: "is_string v \<longleftrightarrow> (\<exists>s. v = JString s)"
  by (cases v) auto

lemma is_number_iff: "is_number v \<longleftrightarrow> (\<exists>n. v = JNumber n)"
  by (cases v) auto

lemma is_array_iff: "is_array v \<longleftrightarrow> (\<exists>vs. v = JArray vs)"
  by (cases v) auto

lemma is_object_iff: "is_object v \<longleftrightarrow> (\<exists>kvs. v = JObject kvs)"
  by (cases v) auto

lemma string_of_Some_iff [simp]: "string_of v = Some s \<longleftrightarrow> v = JString s"
  by (cases v) auto

lemma number_of_Some_iff [simp]: "number_of v = Some n \<longleftrightarrow> v = JNumber n"
  by (cases v) auto

lemma elements_of_Some_iff [simp]: "elements_of v = Some vs \<longleftrightarrow> v = JArray vs"
  by (cases v) auto

lemma bindings_of_Some_iff [simp]: "bindings_of v = Some kvs \<longleftrightarrow> v = JObject kvs"
  by (cases v) auto

section \<open>Array indices\<close>

text \<open>
  A property key names an array element when it is the canonical decimal
  spelling of a number: digits only, and no leading zero unless the key is
  \<open>0\<close> itself.
\<close>

definition index_key :: "string \<Rightarrow> nat option" where
  "index_key k =
     (if k \<noteq> [] \<and> list_all is_digit k \<and> (length k = 1 \<or> hd k \<noteq> CHR ''0'')
         \<and> nat_of_digits k < 4294967295
      then Some (nat_of_digits k) else None)"

text \<open>
  The bound is \<open>2\<^sup>3\<^sup>2 - 1\<close>: larger numbers are ordinary keys. The canonical
  spelling of a number below the bound is an index key for that number, and
  nothing else is.
\<close>

lemma index_key_digits_of_nat: "n < 4294967295 \<Longrightarrow> index_key (digits_of_nat n) = Some n"
proof -
  assume n: "n < 4294967295"
  have "length (digits_of_nat n) = 1 \<or> hd (digits_of_nat n) \<noteq> CHR ''0''"
  proof (cases "n = 0")
    case True
    then show ?thesis by (simp add: digits_of_nat_small)
  next
    case False
    then show ?thesis by (simp add: hd_digits_of_nat)
  qed
  with n show ?thesis by (simp add: index_key_def)
qed

lemma index_key_SomeD:
  "index_key k = Some n \<Longrightarrow> k \<noteq> [] \<and> list_all is_digit k \<and> n = nat_of_digits k \<and> n < 4294967295"
  by (auto simp: index_key_def split: if_splits)

lemma index_key_no_digit: "k \<noteq> [] \<Longrightarrow> \<not> is_digit (hd k) \<Longrightarrow> index_key k = None"
  by (cases k) (auto simp: index_key_def)

lemma index_key_length [simp]: "index_key ''length'' = None"
  by (simp add: index_key_def is_digit_def digits_def)

section \<open>Reading a property\<close>

text \<open>
  Reading a key of an object yields its last binding. An array has its
  elements under their indices and its length under \<open>length\<close>. A string has
  its characters under their indices, each a string of one character, and
  its length under \<open>length\<close>. A number has no own property.
\<close>

fun own_prop :: "js_value \<Rightarrow> string \<Rightarrow> js_value option" where
  "own_prop (JObject kvs) k = lookup_last kvs k"
| "own_prop (JArray vs) k =
     (if k = ''length'' then Some (JNumber (int (length vs)))
      else case index_key k of
        None \<Rightarrow> None
      | Some i \<Rightarrow> if i < length vs then Some (vs ! i) else None)"
| "own_prop (JString s) k =
     (if k = ''length'' then Some (JNumber (int (length s)))
      else case index_key k of
        None \<Rightarrow> None
      | Some i \<Rightarrow> if i < length s then Some (JString [s ! i]) else None)"
| "own_prop (JNumber n) k = None"

text \<open>
  A member access on a missing property evaluates to \<^verbatim>\<open>undefined\<close>; a
  further member access on that result throws a \<^verbatim>\<open>TypeError\<close>. Both are
  results of \<open>read_path\<close>.
\<close>

datatype read_error = Undefined | TypeError

fun read_path :: "js_value \<Rightarrow> string list \<Rightarrow> read_error + js_value" where
  "read_path v [] = Inr v"
| "read_path v (k # ks) =
     (case own_prop v k of
        None \<Rightarrow> if ks = [] then Inl Undefined else Inl TypeError
      | Some w \<Rightarrow> read_path w ks)"

lemma own_prop_object_distinct:
  "distinct (keys_of kvs) \<Longrightarrow> own_prop (JObject kvs) k = map_of kvs k"
  by (simp add: lookup_last_distinct)

lemma own_prop_object_member:
  "distinct (keys_of kvs) \<Longrightarrow> (k, v) \<in> set kvs \<Longrightarrow> own_prop (JObject kvs) k = Some v"
  by (simp add: lookup_last_in_distinct)

lemma own_prop_object_absent:
  "k \<notin> set (keys_of kvs) \<Longrightarrow> own_prop (JObject kvs) k = None"
  by (simp add: lookup_last_None_iff)

lemma own_prop_array_length: "own_prop (JArray vs) ''length'' = Some (JNumber (int (length vs)))"
  by simp

lemma read_path_singleton:
  "read_path v [k] = (case own_prop v k of None \<Rightarrow> Inl Undefined | Some w \<Rightarrow> Inr w)"
  by (simp split: option.splits)

lemma read_path_append:
  "read_path v ks = Inr w \<Longrightarrow> read_path v (ks @ ls) = read_path w ls"
proof (induction ks arbitrary: v)
  case Nil
  then show ?case by simp
next
  case (Cons k ks)
  then show ?case by (cases "own_prop v k") (auto split: if_splits)
qed

lemma read_path_TypeError_append:
  "read_path v ks = Inl TypeError \<Longrightarrow> read_path v (ks @ ls) = Inl TypeError"
proof (induction ks arbitrary: v)
  case Nil
  then show ?case by simp
next
  case (Cons k ks)
  then show ?case by (cases "own_prop v k") (auto split: if_splits)
qed

lemma read_path_Undefined_append:
  "read_path v ks = Inl Undefined \<Longrightarrow> ls \<noteq> [] \<Longrightarrow> read_path v (ks @ ls) = Inl TypeError"
proof (induction ks arbitrary: v)
  case Nil
  then show ?case by simp
next
  case (Cons k ks)
  then show ?case by (cases "own_prop v k") (auto split: if_splits)
qed

lemma read_path_Inr_prefix:
  "read_path v (ks @ ls) = Inr w \<Longrightarrow> \<exists>u. read_path v ks = Inr u \<and> read_path u ls = Inr w"
proof (cases "read_path v ks")
  case (Inl e)
  assume r: "read_path v (ks @ ls) = Inr w"
  show ?thesis
  proof (cases e)
    case TypeError
    with Inl r show ?thesis by (simp add: read_path_TypeError_append)
  next
    case Undefined
    with Inl r show ?thesis
      by (cases "ls = []") (simp_all add: read_path_Undefined_append)
  qed
next
  case (Inr u)
  assume "read_path v (ks @ ls) = Inr w"
  with Inr show ?thesis by (simp add: read_path_append)
qed

section \<open>Well-formed literals\<close>

text \<open>
  A literal has unique keys when no object literal inside it, at any depth,
  binds a key twice.
\<close>

fun unique_keys :: "js_value \<Rightarrow> bool" where
  "unique_keys (JString s) = True"
| "unique_keys (JNumber n) = True"
| "unique_keys (JArray vs) = list_all unique_keys vs"
| "unique_keys (JObject kvs) =
     (distinct (keys_of kvs) \<and> list_all (\<lambda>kv. unique_keys (snd kv)) kvs)"

lemma unique_keys_own_prop:
  "unique_keys v \<Longrightarrow> own_prop v k = Some w \<Longrightarrow> unique_keys w"
proof (cases v)
  case (JObject kvs)
  assume "unique_keys v" and "own_prop v k = Some w"
  with JObject have "(k, w) \<in> set kvs" and "list_all (\<lambda>kv. unique_keys (snd kv)) kvs"
    by (auto dest: lookup_last_SomeD)
  then show ?thesis by (auto simp: list_all_iff)
next
  case (JArray vs)
  assume "unique_keys v" and "own_prop v k = Some w"
  with JArray show ?thesis
    by (auto simp: list_all_iff split: if_splits option.splits)
qed (auto split: if_splits option.splits)

lemma unique_keys_read_path:
  "unique_keys v \<Longrightarrow> read_path v ks = Inr w \<Longrightarrow> unique_keys w"
proof (induction ks arbitrary: v)
  case Nil
  then show ?case by simp
next
  case (Cons k ks)
  then obtain u where u: "own_prop v k = Some u" and r: "read_path u ks = Inr w"
    by (cases "own_prop v k") (auto split: if_splits)
  from Cons.prems(1) u have "unique_keys u" by (rule unique_keys_own_prop)
  then show ?case using r by (rule Cons.IH)
qed

section \<open>The order of keys\<close>

text \<open>
  The keys of an object are enumerated in this order: the keys that are array
  indices first, by ascending value, then the other keys in the order in
  which they were first bound. An array and a string enumerate their
  indices. This is the order in which a consumer that walks a token table
  visits the tokens.
\<close>

definition first_occurrences :: "'a list \<Rightarrow> 'a list" where
  "first_occurrences xs = rev (remdups (rev xs))"

definition is_index_key :: "string \<Rightarrow> bool" where
  "is_index_key k \<longleftrightarrow> index_key k \<noteq> None"

fun own_keys :: "js_value \<Rightarrow> string list" where
  "own_keys (JObject kvs) =
     (let ks = first_occurrences (keys_of kvs)
      in sort_key nat_of_digits (filter is_index_key ks) @ filter (\<lambda>k. \<not> is_index_key k) ks)"
| "own_keys (JArray vs) = map digits_of_nat [0..<length vs]"
| "own_keys (JString s) = map digits_of_nat [0..<length s]"
| "own_keys (JNumber n) = []"

text \<open>
  A literal has plain keys when no key of an object literal inside it, at any
  depth, is an array index.
\<close>

fun plain_keys :: "js_value \<Rightarrow> bool" where
  "plain_keys (JString s) = True"
| "plain_keys (JNumber n) = True"
| "plain_keys (JArray vs) = list_all plain_keys vs"
| "plain_keys (JObject kvs) =
     (list_all (\<lambda>kv. \<not> is_index_key (fst kv)) kvs \<and> list_all (\<lambda>kv. plain_keys (snd kv)) kvs)"

lemma first_occurrences_distinct [simp]: "distinct xs \<Longrightarrow> first_occurrences xs = xs"
  by (simp add: first_occurrences_def distinct_remdups_id)

lemma set_first_occurrences [simp]: "set (first_occurrences xs) = set xs"
  by (simp add: first_occurrences_def)

lemma distinct_first_occurrences [simp]: "distinct (first_occurrences xs)"
  by (simp add: first_occurrences_def)

lemma filter_no_index_keys:
  "list_all (\<lambda>kv. \<not> is_index_key (fst kv)) kvs \<Longrightarrow>
     filter is_index_key (keys_of kvs) = [] \<and>
     filter (\<lambda>k. \<not> is_index_key k) (keys_of kvs) = keys_of kvs"
  by (induction kvs) auto

lemma own_keys_source_order:
  assumes "distinct (keys_of kvs)" and "list_all (\<lambda>kv. \<not> is_index_key (fst kv)) kvs"
  shows "own_keys (JObject kvs) = keys_of kvs"
  using assms filter_no_index_keys [OF assms(2)] by simp

lemma set_own_keys_object: "set (own_keys (JObject kvs)) = set (keys_of kvs)"
  by (auto simp: Let_def)

lemma own_keys_object_readable:
  "k \<in> set (own_keys (JObject kvs)) \<longleftrightarrow> own_prop (JObject kvs) k \<noteq> None"
  by (simp only: set_own_keys_object own_prop.simps lookup_last_None_iff) simp

lemma own_keys_array_readable:
  assumes "length vs < 4294967295" and "i < length vs"
  shows "own_prop (JArray vs) (own_keys (JArray vs) ! i) = Some (vs ! i)"
proof -
  from assms have i: "i < 4294967295" by simp
  have "digits_of_nat i \<noteq> ''length''"
  proof
    assume "digits_of_nat i = ''length''"
    with digits_of_nat_all_digits [of i] have "list_all is_digit ''length''" by simp
    then show False by (simp add: is_digit_def digits_def)
  qed
  with assms i show ?thesis by (simp add: index_key_digits_of_nat)
qed

lemma plain_keys_own_prop:
  "plain_keys v \<Longrightarrow> own_prop v k = Some w \<Longrightarrow> plain_keys w"
proof (cases v)
  case (JObject kvs)
  assume "plain_keys v" and "own_prop v k = Some w"
  with JObject have "(k, w) \<in> set kvs" and "list_all (\<lambda>kv. plain_keys (snd kv)) kvs"
    by (auto dest: lookup_last_SomeD)
  then show ?thesis by (auto simp: list_all_iff)
next
  case (JArray vs)
  assume "plain_keys v" and "own_prop v k = Some w"
  with JArray show ?thesis
    by (auto simp: list_all_iff split: if_splits option.splits)
qed (auto split: if_splits option.splits)

lemma plain_keys_read_path:
  "plain_keys v \<Longrightarrow> read_path v ks = Inr w \<Longrightarrow> plain_keys w"
proof (induction ks arbitrary: v)
  case Nil
  then show ?case by simp
next
  case (Cons k ks)
  then obtain u where u: "own_prop v k = Some u" and r: "read_path u ks = Inr w"
    by (cases "own_prop v k") (auto split: if_splits)
  from Cons.prems(1) u have "plain_keys u" by (rule plain_keys_own_prop)
  then show ?case using r by (rule Cons.IH)
qed

section \<open>Tables of tokens\<close>

text \<open>
  A token table satisfies a condition when every value it binds does; a value
  is a string token with a property when it is a string literal whose text has
  the property.
\<close>

definition all_tokens :: "(js_value \<Rightarrow> bool) \<Rightarrow> (string, js_value) alist \<Rightarrow> bool" where
  "all_tokens P table = list_all (\<lambda>kv. P (snd kv)) table"

definition string_token :: "(string \<Rightarrow> bool) \<Rightarrow> js_value \<Rightarrow> bool" where
  "string_token P v = (case v of JString s \<Rightarrow> P s | _ \<Rightarrow> False)"

lemma all_tokens_Nil [simp]: "all_tokens P [] = True"
  by (simp add: all_tokens_def)

lemma all_tokens_Cons [simp]: "all_tokens P ((k, v) # table) = (P v \<and> all_tokens P table)"
  by (simp add: all_tokens_def)

lemma string_token_simps [simp]:
  "string_token P (JString s) = P s"
  "string_token P (JNumber n) = False"
  "string_token P (JArray vs) = False"
  "string_token P (JObject kvs) = False"
  by (simp_all add: string_token_def)

lemma all_tokens_own_prop:
  assumes "all_tokens P table" and "own_prop (JObject table) k = Some v"
  shows "P v"
proof -
  from assms(2) have "(k, v) \<in> set table"
    by (simp add: lookup_last_SomeD)
  with assms(1) show ?thesis
    by (force simp: all_tokens_def list_all_iff)
qed

lemma all_tokens_mono:
  "all_tokens P table \<Longrightarrow> (\<And>v. P v \<Longrightarrow> Q v) \<Longrightarrow> all_tokens Q table"
  by (auto simp: all_tokens_def list_all_iff)

lemma string_token_mono: "string_token P v \<Longrightarrow> (\<And>s. P s \<Longrightarrow> Q s) \<Longrightarrow> string_token Q v"
  by (cases v) auto

end
