(* ===== verification/JS_Object.thy ===== *)
theory JS_Object
  imports JS_Value "HOL-Library.AList"
begin

text \<open>
  How the runtime builds an object from an object literal. The bindings are
  defined one after the other: defining a key that the object does not have
  appends it, defining a key that it has replaces the value and keeps the
  key's place. \<open>evaluate\<close> does this at every depth. The result never binds a
  key twice, reads like the literal, and is the literal itself when the
  literal has unique keys.
\<close>

section \<open>Defining the bindings in order\<close>

definition define_property :: "(string, 'v) alist \<Rightarrow> string \<times> 'v \<Rightarrow> (string, 'v) alist" where
  "define_property al kv = AList.update (fst kv) (snd kv) al"

definition object_of :: "(string, 'v) alist \<Rightarrow> (string, 'v) alist" where
  "object_of kvs = foldl define_property [] kvs"

fun evaluate :: "js_value \<Rightarrow> js_value" where
  "evaluate (JString s) = JString s"
| "evaluate (JNumber n) = JNumber n"
| "evaluate (JArray vs) = JArray (map evaluate vs)"
| "evaluate (JObject kvs) = JObject (object_of (map (\<lambda>kv. (fst kv, evaluate (snd kv))) kvs))"

lemma object_of_Nil [simp]: "object_of [] = []"
  by (simp add: object_of_def)

lemma object_of_snoc [simp]: "object_of (kvs @ [kv]) = define_property (object_of kvs) kv"
  by (simp add: object_of_def)

lemma update_absent: "k \<notin> set (keys_of al) \<Longrightarrow> AList.update k v al = al @ [(k, v)]"
  by (induction al) auto

lemma distinct_object_of [simp]: "distinct (keys_of (object_of kvs))"
  by (induction kvs rule: rev_induct) (simp_all add: define_property_def distinct_update)

lemma map_of_object_of: "map_of (object_of kvs) = map_of (rev kvs)"
proof (induction kvs rule: rev_induct)
  case Nil
  then show ?case by simp
next
  case (snoc kv kvs)
  then show ?case
    by (cases kv) (auto simp: define_property_def update_conv' fun_eq_iff)
qed

lemma first_occurrences_snoc:
  "first_occurrences (xs @ [x]) =
     (if x \<in> set xs then first_occurrences xs else first_occurrences xs @ [x])"
  by (simp add: first_occurrences_def)

lemma keys_of_object_of: "keys_of (object_of kvs) = first_occurrences (keys_of kvs)"
proof (induction kvs rule: rev_induct)
  case Nil
  then show ?case by (simp add: first_occurrences_def)
next
  case (snoc kv kvs)
  have "set (keys_of (object_of kvs)) = set (keys_of kvs)"
    by (simp add: snoc.IH)
  with snoc show ?case
    by (simp add: define_property_def update_keys first_occurrences_snoc del: set_map)
qed

lemma object_of_distinct: "distinct (keys_of kvs) \<Longrightarrow> object_of kvs = kvs"
proof (induction kvs rule: rev_induct)
  case Nil
  then show ?case by simp
next
  case (snoc kv kvs)
  then have "object_of kvs = kvs" and "fst kv \<notin> set (keys_of kvs)"
    by simp_all
  then show ?case
    by (cases kv) (simp add: define_property_def update_absent)
qed

lemma lookup_last_object_of [simp]: "lookup_last (object_of kvs) k = lookup_last kvs k"
proof -
  have "lookup_last (object_of kvs) k = map_of (object_of kvs) k"
    by (simp add: lookup_last_distinct)
  then show ?thesis by (simp add: map_of_object_of lookup_last_rev)
qed

lemma lookup_last_map_values:
  "lookup_last (map (\<lambda>kv. (fst kv, f (snd kv))) kvs) k = map_option f (lookup_last kvs k)"
  by (induction kvs) (auto split: option.splits)

section \<open>The evaluated literal\<close>

text \<open>The runtime object never binds a key twice.\<close>

lemma unique_keys_evaluate [simp]: "unique_keys (evaluate v)"
proof (induction v)
  case (JObject kvs)
  let ?kvs = "map (\<lambda>kv. (fst kv, evaluate (snd kv))) kvs"
  have "w \<in> set (values_of (object_of ?kvs)) \<Longrightarrow> unique_keys w" for w
  proof -
    assume "w \<in> set (values_of (object_of ?kvs))"
    then obtain k where kw: "(k, w) \<in> set (object_of ?kvs)" by auto
    have "lookup_last (object_of ?kvs) k = Some w"
      using lookup_last_in_distinct [OF distinct_object_of kw] .
    then have "lookup_last ?kvs k = Some w" by simp
    then have "(k, w) \<in> set ?kvs"
      by (rule lookup_last_SomeD)
    then obtain u where "(k, u) \<in> set kvs" and "w = evaluate u" by auto
    with JObject show "unique_keys w"
      by (auto simp: snds.simps)
  qed
  then show ?case by (auto simp: list_all_iff)
qed (simp_all add: list_all_iff)

text \<open>Reading the runtime object is reading the literal.\<close>

lemma own_prop_evaluate: "own_prop (evaluate v) k = map_option evaluate (own_prop v k)"
proof (cases v)
  case (JObject kvs)
  then show ?thesis by (simp add: lookup_last_map_values)
next
  case (JArray vs)
  then show ?thesis by (auto split: option.splits)
qed (auto split: if_splits option.splits)

lemma read_path_evaluate:
  "read_path (evaluate v) ks = map_sum id evaluate (read_path v ks)"
proof (induction ks arbitrary: v)
  case Nil
  then show ?case by simp
next
  case (Cons k ks)
  then show ?case
    by (cases "own_prop v k") (simp_all add: own_prop_evaluate)
qed

text \<open>A literal with unique keys is its own runtime object.\<close>

lemma evaluate_unique_keys: "unique_keys v \<Longrightarrow> evaluate v = v"
proof (induction v)
  case (JArray vs)
  then have "map evaluate vs = vs"
    by (intro map_idI) (simp add: list_all_iff)
  then show ?case by simp
next
  case (JObject kvs)
  then have d: "distinct (keys_of kvs)" and "\<And>kv. kv \<in> set kvs \<Longrightarrow> unique_keys (snd kv)"
    by (simp_all add: list_all_iff)
  with JObject.IH have "map (\<lambda>kv. (fst kv, evaluate (snd kv))) kvs = kvs"
    by (intro map_idI) (auto simp: snds.simps)
  with d show ?case by (simp add: object_of_distinct)
qed simp_all

lemma evaluate_idem [simp]: "evaluate (evaluate v) = evaluate v"
  by (simp add: evaluate_unique_keys)

lemma own_keys_evaluate_object:
  "own_keys (evaluate (JObject kvs)) = own_keys (JObject kvs)"
  by (simp add: keys_of_object_of comp_def first_occurrences_def remdups_remdups)

end
