(* ===== verification/Lexing.thy ===== *)
theory Lexing
  imports Prelude "HOL-Library.Monad_Syntax"
begin

text \<open>
  Scanners shared by the recognisers of CSS values. A scanner takes the text
  that is left and returns what it read together with the rest, or nothing;
  scanners are sequenced in the option monad. Each scanner comes with a lemma
  that says what a successful scan consumed, so that the recognisers can be
  related to the grammar they accept.
\<close>

type_synonym 'a scanner = "string \<Rightarrow> ('a \<times> string) option"

section \<open>Literal text\<close>

fun strip_prefix :: "string \<Rightarrow> string \<Rightarrow> string option" where
  "strip_prefix [] s = Some s"
| "strip_prefix (p # ps) [] = None"
| "strip_prefix (p # ps) (c # cs) = (if p = c then strip_prefix ps cs else None)"

lemma strip_prefix_Some_iff: "strip_prefix p s = Some r \<longleftrightarrow> s = p @ r"
  by (induction p s rule: strip_prefix.induct) auto

lemma strip_prefix_append [simp]: "strip_prefix p (p @ r) = Some r"
  by (simp add: strip_prefix_Some_iff)

lemma strip_prefix_None_iff: "strip_prefix p s = None \<longleftrightarrow> (\<forall>r. s \<noteq> p @ r)"
proof -
  have "strip_prefix p s \<noteq> None \<longleftrightarrow> (\<exists>r. s = p @ r)"
    by (auto simp: strip_prefix_Some_iff)
  then show ?thesis by blast
qed

section \<open>White space\<close>

definition skip_spaces :: "string \<Rightarrow> string" where
  "skip_spaces s = dropWhile is_space s"

definition starts_with_space :: "string \<Rightarrow> bool" where
  "starts_with_space s \<longleftrightarrow> (case s of [] \<Rightarrow> False | c # cs \<Rightarrow> is_space c)"

lemma skip_spaces_Nil [simp]: "skip_spaces [] = []"
  by (simp add: skip_spaces_def)

lemma skip_spaces_Cons [simp]:
  "skip_spaces (c # cs) = (if is_space c then skip_spaces cs else c # cs)"
  by (simp add: skip_spaces_def)

lemma skip_spaces_suffix: "\<exists>ws. s = ws @ skip_spaces s \<and> list_all is_space ws"
proof -
  have "s = takeWhile is_space s @ skip_spaces s"
    by (simp add: skip_spaces_def)
  moreover have "list_all is_space (takeWhile is_space s)"
    by (auto simp: list_all_iff dest: set_takeWhileD)
  ultimately show ?thesis by blast
qed

lemma length_skip_spaces: "length (skip_spaces s) \<le> length s"
  by (simp add: skip_spaces_def length_dropWhile_le)

lemma skip_spaces_idem [simp]: "skip_spaces (skip_spaces s) = skip_spaces s"
  by (induction s) auto

lemma skip_spaces_no_space: "\<not> starts_with_space s \<Longrightarrow> skip_spaces s = s"
  by (cases s) (auto simp: starts_with_space_def)

lemma skip_spaces_replicate [simp]:
  "skip_spaces (replicate n (CHR '' '') @ s) = skip_spaces s"
  by (induction n) (auto simp: is_space_def)

section \<open>Digits\<close>

definition scan_digits :: "string scanner" where
  "scan_digits s =
     (let ds = takeWhile is_digit s
      in if ds = [] then None else Some (ds, dropWhile is_digit s))"

definition scan_nat :: "nat scanner" where
  "scan_nat s = map_option (apfst nat_of_digits) (scan_digits s)"

definition starts_with_digit :: "string \<Rightarrow> bool" where
  "starts_with_digit s \<longleftrightarrow> (case s of [] \<Rightarrow> False | c # cs \<Rightarrow> is_digit c)"

lemma starts_with_digit_simps [simp]:
  "starts_with_digit [] = False"
  "starts_with_digit (c # cs) = is_digit c"
  by (simp_all add: starts_with_digit_def)

lemma takeWhile_digits_append:
  "list_all is_digit ds \<Longrightarrow> \<not> starts_with_digit r \<Longrightarrow> takeWhile is_digit (ds @ r) = ds"
  by (induction ds) (auto simp: starts_with_digit_def split: list.splits)

lemma dropWhile_digits_append:
  "list_all is_digit ds \<Longrightarrow> \<not> starts_with_digit r \<Longrightarrow> dropWhile is_digit (ds @ r) = r"
  by (induction ds) (auto simp: starts_with_digit_def split: list.splits)

lemma not_starts_with_digit_dropWhile [simp]: "\<not> starts_with_digit (dropWhile is_digit s)"
  by (induction s) auto

lemma scan_digits_SomeD:
  assumes "scan_digits s = Some (ds, r)"
  shows "s = ds @ r" and "ds \<noteq> []" and "list_all is_digit ds" and "\<not> starts_with_digit r"
proof -
  from assms have ds: "ds = takeWhile is_digit s" and r: "r = dropWhile is_digit s"
    and ne: "ds \<noteq> []"
    by (auto simp: scan_digits_def Let_def split: if_splits)
  show "s = ds @ r" by (simp add: ds r)
  show "ds \<noteq> []" by (rule ne)
  show "list_all is_digit ds" by (auto simp: ds list_all_iff dest: set_takeWhileD)
  show "\<not> starts_with_digit r" by (simp add: r)
qed

lemma scan_digits_append:
  "ds \<noteq> [] \<Longrightarrow> list_all is_digit ds \<Longrightarrow> \<not> starts_with_digit r \<Longrightarrow>
   scan_digits (ds @ r) = Some (ds, r)"
  by (simp add: scan_digits_def takeWhile_digits_append dropWhile_digits_append)

lemma scan_nat_SomeD:
  assumes "scan_nat s = Some (n, r)"
  shows "\<exists>ds. s = ds @ r \<and> ds \<noteq> [] \<and> list_all is_digit ds \<and> n = nat_of_digits ds"
    and "length r < length s"
proof -
  from assms obtain ds where sd: "scan_digits s = Some (ds, r)" and n: "n = nat_of_digits ds"
    by (auto simp: scan_nat_def)
  from scan_digits_SomeD [OF sd] n
  show "\<exists>ds. s = ds @ r \<and> ds \<noteq> [] \<and> list_all is_digit ds \<and> n = nat_of_digits ds"
    by blast
  from scan_digits_SomeD(1,2) [OF sd] show "length r < length s" by simp
qed

lemma scan_nat_digits_of_nat:
  "\<not> starts_with_digit r \<Longrightarrow> scan_nat (digits_of_nat n @ r) = Some (n, r)"
  by (simp add: scan_nat_def scan_digits_append)

section \<open>Names and keywords\<close>

text \<open>
  A keyword or a unit ends where the name ends: \<^verbatim>\<open>px\<close> is not a prefix of a
  longer name. \<open>scan_keyword\<close> tries the entries of a table in order and
  returns the value of the first keyword that is followed by no name
  character. Keywords are matched in lower case only.
\<close>

definition name_chars :: string where
  [lex_defs]: "name_chars = ''abcdefghijklmnopqrstuvwxyzABCDEFGHIJKLMNOPQRSTUVWXYZ0123456789-_''"

definition is_name_char :: "char \<Rightarrow> bool" where
  [lex_defs]: "is_name_char c \<longleftrightarrow> c \<in> set name_chars"

definition starts_with_name_char :: "string \<Rightarrow> bool" where
  "starts_with_name_char s \<longleftrightarrow> (case s of [] \<Rightarrow> False | c # cs \<Rightarrow> is_name_char c)"

lemma starts_with_name_char_simps [simp]:
  "starts_with_name_char [] = False"
  "starts_with_name_char (c # cs) = is_name_char c"
  by (simp_all add: starts_with_name_char_def)

fun scan_keyword :: "(string \<times> 'a) list \<Rightarrow> 'a scanner" where
  "scan_keyword [] s = None"
| "scan_keyword ((k, v) # kvs) s =
     (case strip_prefix k s of
        Some r \<Rightarrow> if starts_with_name_char r then scan_keyword kvs s else Some (v, r)
      | None \<Rightarrow> scan_keyword kvs s)"

lemma scan_keyword_SomeD:
  "scan_keyword kvs s = Some (v, r) \<Longrightarrow>
     \<exists>k. (k, v) \<in> set kvs \<and> s = k @ r \<and> \<not> starts_with_name_char r"
proof (induction kvs)
  case Nil
  then show ?case by simp
next
  case (Cons kv kvs)
  obtain k w where kv: "kv = (k, w)" by (cases kv)
  show ?case
  proof (cases "strip_prefix k s")
    case None
    with Cons kv show ?thesis by auto
  next
    case (Some t)
    then have s: "s = k @ t" by (simp add: strip_prefix_Some_iff)
    show ?thesis
    proof (cases "starts_with_name_char t")
      case True
      with Cons kv Some show ?thesis by auto
    next
      case False
      with Cons.prems kv Some s show ?thesis by auto
    qed
  qed
qed

section \<open>Splitting at the top level\<close>

text \<open>
  The values of CSS are lists of components separated by commas or by white
  space, where a function with its arguments, such as \<^verbatim>\<open>rgba(0, 0, 0, 0.8)\<close>,
  is one component. \<open>split_top\<close> splits a text at the separators that are
  outside every pair of parentheses; it carries the depth of nesting and the
  component read so far, in reverse.
\<close>

fun split_top :: "(char \<Rightarrow> bool) \<Rightarrow> nat \<Rightarrow> string \<Rightarrow> string \<Rightarrow> string list" where
  "split_top sep d acc [] = [rev acc]"
| "split_top sep d acc (c # cs) =
     (if c = CHR ''('' then split_top sep (Suc d) (c # acc) cs
      else if c = CHR '')'' then split_top sep (d - 1) (c # acc) cs
      else if d = 0 \<and> sep c then rev acc # split_top sep 0 [] cs
      else split_top sep d (c # acc) cs)"

definition is_comma :: "char \<Rightarrow> bool" where
  [lex_defs]: "is_comma c \<longleftrightarrow> c = CHR '',''"

definition split_commas :: "string \<Rightarrow> string list" where
  "split_commas s = split_top is_comma 0 [] s"

definition words_of :: "string \<Rightarrow> string list" where
  "words_of s = filter (\<lambda>w. w \<noteq> []) (split_top is_space 0 [] s)"

lemmas split_defs = split_commas_def words_of_def

lemmas scan_defs = scan_nat_def scan_digits_def nat_of_digits_def

text \<open>Joining the components with the separator gives the text back.\<close>

fun join_with :: "char \<Rightarrow> string list \<Rightarrow> string" where
  "join_with x [] = []"
| "join_with x [w] = w"
| "join_with x (w # v # ws) = w @ x # join_with x (v # ws)"

text \<open>Joining with a separator of several characters.\<close>

fun join_by :: "string \<Rightarrow> string list \<Rightarrow> string" where
  "join_by sep [] = []"
| "join_by sep [w] = w"
| "join_by sep (w # v # ws) = w @ sep @ join_by sep (v # ws)"

lemma join_by_Cons: "ws \<noteq> [] \<Longrightarrow> join_by sep (w # ws) = w @ sep @ join_by sep ws"
  by (cases ws) simp_all

lemma join_with_join_by: "join_with x ws = join_by [x] ws"
  by (induction x ws rule: join_with.induct) simp_all

lemma split_top_nonempty [simp]: "split_top sep d acc s \<noteq> []"
  by (induction s arbitrary: d acc) auto

lemma join_with_Cons: "ws \<noteq> [] \<Longrightarrow> join_with x (w # ws) = w @ x # join_with x ws"
  by (cases ws) auto

lemma join_split_top:
  "join_with x (split_top (\<lambda>c. c = x) d acc s) = rev acc @ s"
  by (induction s arbitrary: d acc) (auto simp: join_with_Cons)

lemma join_split_commas [simp]: "join_with (CHR '','') (split_commas s) = s"
proof -
  have "is_comma = (\<lambda>c. c = CHR '','')" by (auto simp: is_comma_def)
  then show ?thesis
    using join_split_top [of "CHR '',''" 0 "[]" s] by (simp add: split_commas_def)
qed

lemma words_of_nonempty: "w \<in> set (words_of s) \<Longrightarrow> w \<noteq> []"
  by (simp add: words_of_def)

text \<open>Removing a suffix is removing a prefix of the reversed text.\<close>

definition strip_suffix :: "string \<Rightarrow> string \<Rightarrow> string option" where
  "strip_suffix p s = map_option rev (strip_prefix (rev p) (rev s))"

lemma strip_suffix_Some_iff: "strip_suffix p s = Some r \<longleftrightarrow> s = r @ p"
proof -
  have "strip_suffix p s = Some r \<longleftrightarrow> rev s = rev p @ rev r"
    by (auto simp: strip_suffix_def strip_prefix_Some_iff)
  also have "\<dots> \<longleftrightarrow> rev s = rev (r @ p)" by simp
  also have "\<dots> \<longleftrightarrow> s = r @ p" by (rule rev_is_rev_conv)
  finally show ?thesis .
qed

end
