(* ===== verification/JSON_Lexical.thy ===== *)
theory JSON_Lexical
  imports Lexing
begin

text \<open>
  The tokens of the JSON notation: strings with their escapes and integers.
  A string is written with the escapes that the runtime uses (quotation mark,
  backslash, the short escapes and \<^verbatim>\<open>\u00XX\<close> for the other control
  characters). The reader accepts these, the escaped solidus, and in
  \<^verbatim>\<open>\uXXXX\<close> every code below 128. Reading what was written gives
  back the string or the integer.
\<close>

section \<open>Characters and their codes\<close>

definition ascii_table :: string where
  "ascii_table =
     [CHR 0x00, CHR 0x01, CHR 0x02, CHR 0x03, CHR 0x04, CHR 0x05, CHR 0x06, CHR 0x07,
      CHR 0x08, CHR 0x09, CHR 0x0A, CHR 0x0B, CHR 0x0C, CHR 0x0D, CHR 0x0E, CHR 0x0F,
      CHR 0x10, CHR 0x11, CHR 0x12, CHR 0x13, CHR 0x14, CHR 0x15, CHR 0x16, CHR 0x17,
      CHR 0x18, CHR 0x19, CHR 0x1A, CHR 0x1B, CHR 0x1C, CHR 0x1D, CHR 0x1E, CHR 0x1F,
      CHR 0x20, CHR 0x21, CHR 0x22, CHR 0x23, CHR 0x24, CHR 0x25, CHR 0x26, CHR 0x27,
      CHR 0x28, CHR 0x29, CHR 0x2A, CHR 0x2B, CHR 0x2C, CHR 0x2D, CHR 0x2E, CHR 0x2F,
      CHR 0x30, CHR 0x31, CHR 0x32, CHR 0x33, CHR 0x34, CHR 0x35, CHR 0x36, CHR 0x37,
      CHR 0x38, CHR 0x39, CHR 0x3A, CHR 0x3B, CHR 0x3C, CHR 0x3D, CHR 0x3E, CHR 0x3F,
      CHR 0x40, CHR 0x41, CHR 0x42, CHR 0x43, CHR 0x44, CHR 0x45, CHR 0x46, CHR 0x47,
      CHR 0x48, CHR 0x49, CHR 0x4A, CHR 0x4B, CHR 0x4C, CHR 0x4D, CHR 0x4E, CHR 0x4F,
      CHR 0x50, CHR 0x51, CHR 0x52, CHR 0x53, CHR 0x54, CHR 0x55, CHR 0x56, CHR 0x57,
      CHR 0x58, CHR 0x59, CHR 0x5A, CHR 0x5B, CHR 0x5C, CHR 0x5D, CHR 0x5E, CHR 0x5F,
      CHR 0x60, CHR 0x61, CHR 0x62, CHR 0x63, CHR 0x64, CHR 0x65, CHR 0x66, CHR 0x67,
      CHR 0x68, CHR 0x69, CHR 0x6A, CHR 0x6B, CHR 0x6C, CHR 0x6D, CHR 0x6E, CHR 0x6F,
      CHR 0x70, CHR 0x71, CHR 0x72, CHR 0x73, CHR 0x74, CHR 0x75, CHR 0x76, CHR 0x77,
      CHR 0x78, CHR 0x79, CHR 0x7A, CHR 0x7B, CHR 0x7C, CHR 0x7D, CHR 0x7E, CHR 0x7F]"

definition control_chars :: string where
  "control_chars = take 32 ascii_table"

definition dquote :: char where
  "dquote = CHR 0x22"

definition backslash :: char where
  "backslash = CHR 0x5C"

definition short_escapes :: "(char \<times> char) list" where
  "short_escapes =
     [(CHR 0x08, CHR ''b''), (CHR 0x0C, CHR ''f''), (CHR 0x0A, CHR ''n''),
      (CHR 0x0D, CHR ''r''), (CHR 0x09, CHR ''t'')]"

definition is_json_space :: "char \<Rightarrow> bool" where
  "is_json_space c \<longleftrightarrow> c \<in> set [CHR 0x20, CHR 0x09, CHR 0x0A, CHR 0x0D]"

definition skip_ws :: "string \<Rightarrow> string" where
  "skip_ws s = dropWhile is_json_space s"

lemmas json_char_defs =
  ascii_table_def control_chars_def dquote_def backslash_def short_escapes_def is_json_space_def

lemma length_ascii_table [simp]: "length ascii_table = 128"
  by (simp add: ascii_table_def)

lemma distinct_ascii_table: "distinct ascii_table"
  by (simp add: ascii_table_def)


lemma control_chars_eval:
  "control_chars =
     [CHR 0x00, CHR 0x01, CHR 0x02, CHR 0x03, CHR 0x04, CHR 0x05, CHR 0x06, CHR 0x07,
      CHR 0x08, CHR 0x09, CHR 0x0A, CHR 0x0B, CHR 0x0C, CHR 0x0D, CHR 0x0E, CHR 0x0F,
      CHR 0x10, CHR 0x11, CHR 0x12, CHR 0x13, CHR 0x14, CHR 0x15, CHR 0x16, CHR 0x17,
      CHR 0x18, CHR 0x19, CHR 0x1A, CHR 0x1B, CHR 0x1C, CHR 0x1D, CHR 0x1E, CHR 0x1F]"
  by (simp add: control_chars_def ascii_table_def)

lemma control_chars_ascii: "c \<in> set control_chars \<Longrightarrow> c \<in> set ascii_table"
  unfolding control_chars_def by (rule in_set_takeD)

lemma index_of_take:
  "x \<in> set (take n xs) \<Longrightarrow> index_of x (take n xs) = index_of x xs"
  by (induction xs arbitrary: n) (auto simp: take_Cons split: nat.splits)

lemma control_char_code:
  assumes "c \<in> set control_chars"
  shows "index_of c ascii_table < 32" and "ascii_table ! index_of c ascii_table = c"
proof -
  from assms have "index_of c control_chars < length control_chars" by (rule index_of_less)
  with assms show "index_of c ascii_table < 32"
    by (simp add: control_chars_def index_of_take)
  from assms show "ascii_table ! index_of c ascii_table = c"
    by (intro nth_index_of control_chars_ascii)
qed

section \<open>Strings\<close>

text \<open>
  A control character without a short escape is written as \<^verbatim>\<open>\u00XX\<close> with its
  code in two lower-case hexadecimal digits.
\<close>

definition hex2 :: "nat \<Rightarrow> string" where
  "hex2 n = [lower_hex_digits ! (n div 16), lower_hex_digits ! (n mod 16)]"

definition escape_char :: "char \<Rightarrow> string" where
  "escape_char c =
     (if c = dquote \<or> c = backslash then [backslash, c]
      else case map_of short_escapes c of
             Some e \<Rightarrow> [backslash, e]
           | None \<Rightarrow>
               if c \<in> set control_chars
               then backslash # ''u00'' @ hex2 (index_of c ascii_table)
               else [c])"

definition quote :: "string \<Rightarrow> string" where
  "quote s = dquote # concat (map escape_char s) @ [dquote]"

text \<open>
  Reading an escape: the character after the backslash stands for itself
  (quotation mark, backslash, solidus) or names a control character; after
  \<^verbatim>\<open>u\<close> come four hexadecimal digits, whose value must be below 128.
\<close>

definition decode_escape :: "char \<Rightarrow> char option" where
  "decode_escape e =
     (if e = dquote \<or> e = backslash \<or> e = CHR ''/'' then Some e
      else map_of (map (\<lambda>(c, n). (n, c)) short_escapes) e)"

definition hex4 :: "string \<Rightarrow> nat" where
  "hex4 ds = foldl (\<lambda>n c. 16 * n + hex_val c) 0 ds"

definition decode_unicode :: "string \<Rightarrow> char option" where
  "decode_unicode ds =
     (if length ds = 4 \<and> list_all is_hex_digit ds \<and> hex4 ds < 128
      then Some (ascii_table ! hex4 ds) else None)"

text \<open>
  \<open>unquote\<close> reads the text after an opening quotation mark up to the closing
  one. A control character may not stand unescaped in a string.
\<close>

fun unquote :: "string scanner" where
  "unquote [] = None"
| "unquote (c # cs) =
     (if c = dquote then Some ([], cs)
      else if c = backslash then
        (case cs of
           [] \<Rightarrow> None
         | e # r \<Rightarrow>
             if e = CHR ''u'' then
               (case decode_unicode (take 4 r) of
                  None \<Rightarrow> None
                | Some d \<Rightarrow> map_option (apfst (Cons d)) (unquote (drop 4 r)))
             else
               (case decode_escape e of
                  None \<Rightarrow> None
                | Some d \<Rightarrow> map_option (apfst (Cons d)) (unquote r)))
      else if c \<in> set control_chars then None
      else map_option (apfst (Cons c)) (unquote cs))"

lemmas json_string_defs =
  hex2_def escape_char_def quote_def decode_escape_def hex4_def decode_unicode_def

lemma nat_less_16_cases:
  "d < 16 \<Longrightarrow>
   d = 0 \<or> d = 1 \<or> d = 2 \<or> d = 3 \<or> d = 4 \<or> d = 5 \<or> d = 6 \<or> d = 7 \<or>
   d = 8 \<or> d = 9 \<or> d = 10 \<or> d = 11 \<or> d = 12 \<or> d = 13 \<or> d = 14 \<or> d = (15::nat)"
  by arith

lemma hex_val_lower: "d < 16 \<Longrightarrow> hex_val (lower_hex_digits ! d) = d"
  by (drule nat_less_16_cases, elim disjE) (simp_all add: lex_defs)

lemma is_hex_digit_lower: "d < 16 \<Longrightarrow> is_hex_digit (lower_hex_digits ! d)"
  by (simp add: is_hex_digit_def)

lemma hex_val_zero: "hex_val (CHR ''0'') = 0" and is_hex_digit_zero: "is_hex_digit (CHR ''0'')"
  by (simp_all add: lex_defs)

lemma hex4_hex2: "n < 256 \<Longrightarrow> hex4 (''00'' @ hex2 n) = n"
  by (simp add: hex4_def hex2_def hex_val_lower hex_val_zero)

lemma decode_unicode_control:
  assumes "c \<in> set control_chars"
  shows "decode_unicode (''00'' @ hex2 (index_of c ascii_table)) = Some c"
proof -
  let ?n = "index_of c ascii_table"
  from control_char_code [OF assms] have n: "?n < 32" and c: "ascii_table ! ?n = c" .
  from n have "hex4 (''00'' @ hex2 ?n) = ?n" by (intro hex4_hex2) simp
  moreover from n have "list_all is_hex_digit (''00'' @ hex2 ?n)"
    by (simp add: hex2_def is_hex_digit_lower is_hex_digit_zero)
  moreover have "length (''00'' @ hex2 ?n) = 4" by (simp add: hex2_def)
  ultimately show ?thesis using n c by (simp only: decode_unicode_def) simp
qed

lemma quote_chars_distinct [simp]:
  "dquote \<noteq> backslash" "backslash \<noteq> dquote" "dquote \<noteq> CHR ''u''" "backslash \<noteq> CHR ''u''"
  by (simp_all add: dquote_def backslash_def)

lemma short_escapes_cases:
  assumes "map_of short_escapes c = Some e"
  obtains "c = CHR 0x08" "e = CHR ''b''" | "c = CHR 0x0C" "e = CHR ''f''"
    | "c = CHR 0x0A" "e = CHR ''n''" | "c = CHR 0x0D" "e = CHR ''r''"
    | "c = CHR 0x09" "e = CHR ''t''"
  using assms by (auto simp: short_escapes_def split: if_splits)

lemma decode_escape_short:
  "map_of short_escapes c = Some e \<Longrightarrow> decode_escape e = Some c \<and> e \<noteq> CHR ''u''"
  by (erule short_escapes_cases) (simp_all add: decode_escape_def json_char_defs)

text \<open>Reading the escape of a character gives the character.\<close>

lemma unquote_escape_char:
  "unquote (escape_char c @ t) = map_option (apfst (Cons c)) (unquote t)"
proof (cases "c = dquote \<or> c = backslash")
  case True
  then show ?thesis by (auto simp: escape_char_def decode_escape_def)
next
  case plain: False
  show ?thesis
  proof (cases "map_of short_escapes c")
    case (Some e)
    with plain decode_escape_short [OF Some] show ?thesis
      by (simp add: escape_char_def)
  next
    case None
    show ?thesis
    proof (cases "c \<in> set control_chars")
      case True
      with plain None decode_unicode_control [OF True] show ?thesis
        by (simp add: escape_char_def hex2_def)
    next
      case False
      with plain None show ?thesis by (simp add: escape_char_def)
    qed
  qed
qed

lemma unquote_escaped:
  "unquote (concat (map escape_char s) @ dquote # r) = Some (s, r)"
  by (induction s) (simp_all add: unquote_escape_char)

lemma unquote_quote: "\<exists>t. quote s @ r = dquote # t \<and> unquote t = Some (s, r)"
  by (simp add: quote_def unquote_escaped)

section \<open>Numbers\<close>

text \<open>
  An integer is written in decimal with a minus sign when it is negative. The
  reader accepts an optional minus sign and digits without a leading zero.
\<close>

definition show_int :: "int \<Rightarrow> string" where
  "show_int n = (if n < 0 then CHR ''-'' # digits_of_nat (nat (- n)) else digits_of_nat (nat n))"

definition scan_json_nat :: "nat scanner" where
  "scan_json_nat s =
     (case scan_digits s of
        None \<Rightarrow> None
      | Some (ds, r) \<Rightarrow>
          if length ds = 1 \<or> hd ds \<noteq> CHR ''0'' then Some (nat_of_digits ds, r) else None)"

definition parse_int :: "int scanner" where
  "parse_int s =
     (case strip_prefix ''-'' s of
        Some r \<Rightarrow> map_option (apfst (\<lambda>n. - int n)) (scan_json_nat r)
      | None \<Rightarrow> map_option (apfst int) (scan_json_nat s))"

lemmas json_number_defs = show_int_def scan_json_nat_def parse_int_def

lemma scan_json_nat_digits_of_nat:
  "\<not> starts_with_digit r \<Longrightarrow> scan_json_nat (digits_of_nat n @ r) = Some (n, r)"
proof -
  assume r: "\<not> starts_with_digit r"
  have "length (digits_of_nat n) = 1 \<or> hd (digits_of_nat n) \<noteq> CHR ''0''"
    using length_digits_of_nat_single [of n] hd_digits_of_nat [of n] by (cases "n < 10") simp_all
  then show ?thesis using r
    by (auto simp: scan_json_nat_def scan_digits_append)
qed

lemma is_digit_not_minus: "is_digit c \<Longrightarrow> c \<noteq> CHR ''-''"
  by (auto simp: lex_defs)

lemma digits_of_nat_Cons: "\<exists>c cs. digits_of_nat n = c # cs \<and> is_digit c"
  using digits_of_nat_all_digits [of n] digits_of_nat_nonempty [of n]
  by (cases "digits_of_nat n") simp_all

lemma parse_int_show_int:
  assumes "\<not> starts_with_digit r"
  shows "parse_int (show_int n @ r) = Some (n, r)"
proof (cases "n < 0")
  case True
  with assms show ?thesis
    by (simp add: parse_int_def show_int_def scan_json_nat_digits_of_nat)
next
  case False
  obtain c cs where c: "digits_of_nat (nat n) = c # cs" "is_digit c"
    using digits_of_nat_Cons by blast
  with is_digit_not_minus [of c] have "strip_prefix ''-'' (digits_of_nat (nat n) @ r) = None"
    by auto
  with False assms show ?thesis
    by (simp add: parse_int_def show_int_def scan_json_nat_digits_of_nat)
qed

end
