(* ===== verification/JSON_Text.thy ===== *)
theory JSON_Text
  imports JS_Value JSON_Lexical
begin

text \<open>
  Values as text: \<open>serialize\<close> writes a value in the JSON notation without
  white space, \<open>serialize_gap\<close> writes it on several lines, and \<open>parse_json\<close>
  reads such a text. The reader takes fuel, one unit for each value and each
  element or member that it enters. Reading what was written gives the value
  back, with and without white space, and the length of a written text is
  fuel enough.
\<close>

section \<open>Writing a value\<close>

text \<open>
  A value is written without white space: a string in quotation marks, an
  array in brackets, an object in braces with its members in the order of its
  bindings.
\<close>

definition member_text :: "string \<Rightarrow> string \<Rightarrow> string" where
  "member_text k t = quote k @ CHR '':'' # t"

fun serialize :: "js_value \<Rightarrow> string" where
  "serialize (JString s) = quote s"
| "serialize (JNumber n) = show_int n"
| "serialize (JArray vs) = CHR ''['' # join_with (CHR '','') (map serialize vs) @ '']''"
| "serialize (JObject kvs) =
     CHR ''{'' # join_with (CHR '','') (map (\<lambda>kv. member_text (fst kv) (serialize (snd kv))) kvs)
       @ ''}''"

text \<open>
  The runtime also writes a value laid out on several lines, when it is given
  a gap: every element and member on a line of its own, indented by one more
  gap than the bracket that holds it, and a space after every colon. With the
  empty gap this is the text without white space. The indentation \<open>ind\<close> is
  that of the line on which the value starts.
\<close>

definition newline :: "string \<Rightarrow> string \<Rightarrow> string" where
  "newline gap ind = (if gap = [] then [] else CHR 0x0A # ind)"

definition colon_space :: "string \<Rightarrow> string" where
  "colon_space gap = (if gap = [] then [] else '' '')"

definition bracketed :: "string \<Rightarrow> string \<Rightarrow> char \<Rightarrow> char \<Rightarrow> string list \<Rightarrow> string" where
  "bracketed gap ind l r parts =
     (if parts = [] then [l, r]
      else l # newline gap (ind @ gap)
             @ join_by (CHR '','' # newline gap (ind @ gap)) parts @ newline gap ind @ [r])"

fun serialize_gap :: "string \<Rightarrow> string \<Rightarrow> js_value \<Rightarrow> string" where
  "serialize_gap gap ind (JString s) = quote s"
| "serialize_gap gap ind (JNumber n) = show_int n"
| "serialize_gap gap ind (JArray vs) =
     bracketed gap ind (CHR ''['') (CHR '']'') (map (serialize_gap gap (ind @ gap)) vs)"
| "serialize_gap gap ind (JObject kvs) =
     bracketed gap ind (CHR ''{'') (CHR ''}'')
       (map (\<lambda>kv. member_text (fst kv) (colon_space gap @ serialize_gap gap (ind @ gap) (snd kv)))
          kvs)"

section \<open>Reading a value\<close>

text \<open>
  The reader follows the grammar of JSON for strings, integers, arrays and
  objects, with white space allowed around every token. \<open>parse_value\<close> reads
  one value, \<open>parse_elements\<close> the elements of an array up to the closing
  bracket, and \<open>parse_members\<close> the members of an object up to the closing
  brace. Each call passes one unit of fuel less to the calls it makes.
\<close>

fun parse_value :: "nat \<Rightarrow> js_value scanner"
  and parse_elements :: "nat \<Rightarrow> js_value list scanner"
  and parse_members :: "nat \<Rightarrow> (string, js_value) alist scanner" where
  "parse_value 0 s = None"
| "parse_value (Suc n) s =
     (case skip_ws s of
        [] \<Rightarrow> None
      | c # r \<Rightarrow>
          if c = dquote then map_option (apfst JString) (unquote r)
          else if c = CHR ''['' then
            (case skip_ws r of
               [] \<Rightarrow> None
             | d # r' \<Rightarrow>
                 if d = CHR '']'' then Some (JArray [], r')
                 else map_option (apfst JArray) (parse_elements n r))
          else if c = CHR ''{'' then
            (case skip_ws r of
               [] \<Rightarrow> None
             | d # r' \<Rightarrow>
                 if d = CHR ''}'' then Some (JObject [], r')
                 else map_option (apfst JObject) (parse_members n r))
          else map_option (apfst JNumber) (parse_int (c # r)))"
| "parse_elements 0 s = None"
| "parse_elements (Suc n) s =
     (case parse_value n s of
        None \<Rightarrow> None
      | Some (v, r) \<Rightarrow>
          (case skip_ws r of
             [] \<Rightarrow> None
           | d # r' \<Rightarrow>
               if d = CHR '','' then map_option (apfst (Cons v)) (parse_elements n r')
               else if d = CHR '']'' then Some ([v], r')
               else None))"
| "parse_members 0 s = None"
| "parse_members (Suc n) s =
     (case skip_ws s of
        [] \<Rightarrow> None
      | q # r \<Rightarrow>
          if q \<noteq> dquote then None
          else
            (case unquote r of
               None \<Rightarrow> None
             | Some (k, r1) \<Rightarrow>
                 (case skip_ws r1 of
                    [] \<Rightarrow> None
                  | c # r2 \<Rightarrow>
                      if c \<noteq> CHR '':'' then None
                      else
                        (case parse_value n r2 of
                           None \<Rightarrow> None
                         | Some (v, r3) \<Rightarrow>
                             (case skip_ws r3 of
                                [] \<Rightarrow> None
                              | d # r4 \<Rightarrow>
                                  if d = CHR '','' then
                                    map_option (apfst (Cons (k, v))) (parse_members n r4)
                                  else if d = CHR ''}'' then Some ([(k, v)], r4)
                                  else None)))))"

text \<open>
  A text is read as one value with nothing but white space after it. The
  fuel is the length of the text and one more.
\<close>

definition parse_json :: "string \<Rightarrow> js_value option" where
  "parse_json s =
     (case parse_value (Suc (length s)) s of
        None \<Rightarrow> None
      | Some (v, r) \<Rightarrow> if skip_ws r = [] then Some v else None)"

text \<open>The fuel that reading a value back takes.\<close>

fun fuel_value :: "js_value \<Rightarrow> nat" where
  "fuel_value (JString s) = 1"
| "fuel_value (JNumber n) = 1"
| "fuel_value (JArray vs) = Suc (sum_list (map (\<lambda>v. Suc (fuel_value v)) vs))"
| "fuel_value (JObject kvs) = Suc (sum_list (map (\<lambda>kv. Suc (fuel_value (snd kv))) kvs))"

section \<open>What the reader does at the first character\<close>

text \<open>
  The characters a written value can begin with. None of them is white space
  or a delimiter, so the first character decides how the reader goes on.
\<close>

definition value_start :: "char \<Rightarrow> bool" where
  "value_start c \<longleftrightarrow>
     c = dquote \<or> c = CHR ''['' \<or> c = CHR ''{'' \<or> c = CHR ''-'' \<or> is_digit c"

definition number_start :: "char \<Rightarrow> bool" where
  "number_start c \<longleftrightarrow> c = CHR ''-'' \<or> is_digit c"

lemma number_start_value_start: "number_start c \<Longrightarrow> value_start c"
  by (simp add: number_start_def value_start_def)

lemma value_start_simps [simp]:
  "value_start dquote" "value_start (CHR ''['')" "value_start (CHR ''{'')"
  by (simp_all add: value_start_def)

lemma value_start_no_delimiter:
  assumes "value_start c"
  shows "\<not> is_json_space c" and "c \<noteq> CHR '']''" and "c \<noteq> CHR ''}''"
proof -
  from assms have "c \<in> set (dquote # ''[{-'' @ digits)"
    by (auto simp: value_start_def is_digit_def)
  then show "\<not> is_json_space c" and "c \<noteq> CHR '']''" and "c \<noteq> CHR ''}''"
    by (auto simp: json_char_defs digits_def)
qed

lemma number_start_no_bracket:
  assumes "number_start c"
  shows "c \<noteq> dquote" and "c \<noteq> CHR ''[''" and "c \<noteq> CHR ''{''"
proof -
  from assms have "c \<in> set (CHR ''-'' # digits)"
    by (auto simp: number_start_def is_digit_def)
  then show "c \<noteq> dquote" and "c \<noteq> CHR ''[''" and "c \<noteq> CHR ''{''"
    by (auto simp: json_char_defs digits_def)
qed

lemma delimiters_no_space [simp]:
  "\<not> is_json_space (CHR '','')" "\<not> is_json_space (CHR '':'')"
  "\<not> is_json_space (CHR '']'')" "\<not> is_json_space (CHR ''}'')"
  by (simp_all add: is_json_space_def)

lemma delimiters_no_digit [simp]:
  "\<not> is_digit (CHR '','')" "\<not> is_digit (CHR '']'')" "\<not> is_digit (CHR ''}'')"
  by (simp_all add: lex_defs)

lemma brackets_distinct [simp]:
  "dquote \<noteq> CHR ''[''" "dquote \<noteq> CHR ''{''" "dquote \<noteq> CHR ''}''" "dquote \<noteq> CHR '']''"
  "CHR ''['' \<noteq> dquote" "CHR ''{'' \<noteq> dquote" "CHR ''}'' \<noteq> dquote" "CHR '']'' \<noteq> dquote"
  by (simp_all add: dquote_def)

lemma skip_ws_Nil [simp]: "skip_ws [] = []"
  by (simp add: skip_ws_def)

lemma skip_ws_Cons: "\<not> is_json_space c \<Longrightarrow> skip_ws (c # s) = c # s"
  by (simp add: skip_ws_def)

lemma skip_ws_delimiter [simp]:
  "skip_ws (CHR '','' # s) = CHR '','' # s" "skip_ws (CHR '':'' # s) = CHR '':'' # s"
  "skip_ws (CHR '']'' # s) = CHR '']'' # s" "skip_ws (CHR ''}'' # s) = CHR ''}'' # s"
  by (simp_all add: skip_ws_Cons)

lemma skip_ws_value_start [simp]: "value_start c \<Longrightarrow> skip_ws (c # s) = c # s"
  by (simp add: skip_ws_Cons value_start_no_delimiter)

text \<open>White space before a token changes nothing.\<close>

lemma skip_ws_append:
  "list_all is_json_space w \<Longrightarrow> skip_ws (w @ s) = skip_ws s"
  by (induction w) (simp_all add: skip_ws_def)

lemma json_space_no_digit: "is_json_space c \<Longrightarrow> \<not> is_digit c"
  by (auto simp: is_json_space_def lex_defs)

lemma not_digit_after_space:
  "list_all is_json_space w \<Longrightarrow> \<not> starts_with_digit r \<Longrightarrow> \<not> starts_with_digit (w @ r)"
  by (cases w) (simp_all add: json_space_no_digit)

lemma parse_value_space:
  "list_all is_json_space w \<Longrightarrow> parse_value n (w @ s) = parse_value n s"
  by (cases n) (simp_all add: skip_ws_append)

lemma parse_elements_space:
  "list_all is_json_space w \<Longrightarrow> parse_elements n (w @ s) = parse_elements n s"
  by (cases n) (simp_all add: parse_value_space)

lemma parse_members_space:
  "list_all is_json_space w \<Longrightarrow> parse_members n (w @ s) = parse_members n s"
  by (cases n) (simp_all add: skip_ws_append)

lemma parse_value_string:
  "parse_value (Suc n) (dquote # t) = map_option (apfst JString) (unquote t)"
  by simp

lemma parse_value_number:
  "number_start c \<Longrightarrow> parse_value (Suc n) (c # t) = map_option (apfst JNumber) (parse_int (c # t))"
  by (simp add: number_start_value_start number_start_no_bracket)

lemma parse_value_empty_array: "parse_value (Suc n) (''[]'' @ r) = Some (JArray [], r)"
  by simp

lemma parse_value_empty_object: "parse_value (Suc n) (''{}'' @ r) = Some (JObject [], r)"
  by simp

lemma parse_value_array:
  "list_all is_json_space w \<Longrightarrow> value_start c \<Longrightarrow>
   parse_value (Suc n) (CHR ''['' # w @ c # t) = map_option (apfst JArray) (parse_elements n (c # t))"
  by (simp add: value_start_no_delimiter skip_ws_append parse_elements_space)

lemma parse_value_object:
  "list_all is_json_space w \<Longrightarrow>
   parse_value (Suc n) (CHR ''{'' # w @ dquote # t)
     = map_option (apfst JObject) (parse_members n (dquote # t))"
  by (simp add: skip_ws_append parse_members_space)

lemma parse_elements_more:
  "list_all is_json_space w \<Longrightarrow> parse_value n s = Some (v, CHR '','' # w @ r) \<Longrightarrow>
   parse_elements (Suc n) s = map_option (apfst (Cons v)) (parse_elements n r)"
  by (simp add: parse_elements_space)

lemma parse_elements_last:
  "list_all is_json_space w \<Longrightarrow> parse_value n s = Some (v, w @ CHR '']'' # r) \<Longrightarrow>
   parse_elements (Suc n) s = Some ([v], r)"
  by (simp add: skip_ws_append)

lemma parse_members_more:
  "list_all is_json_space sp \<Longrightarrow> list_all is_json_space w \<Longrightarrow>
   unquote t = Some (k, CHR '':'' # sp @ r) \<Longrightarrow> parse_value n r = Some (v, CHR '','' # w @ r') \<Longrightarrow>
   parse_members (Suc n) (dquote # t) = map_option (apfst (Cons (k, v))) (parse_members n r')"
  by (simp add: parse_value_space parse_members_space)

lemma parse_members_last:
  "list_all is_json_space sp \<Longrightarrow> list_all is_json_space w \<Longrightarrow>
   unquote t = Some (k, CHR '':'' # sp @ r) \<Longrightarrow> parse_value n r = Some (v, w @ CHR ''}'' # r') \<Longrightarrow>
   parse_members (Suc n) (dquote # t) = Some ([(k, v)], r')"
  by (simp add: parse_value_space skip_ws_append)

lemmas parse_value_start =
  parse_value_string parse_value_number parse_value_empty_array parse_value_empty_object
  parse_value_array parse_value_object

declare parse_value.simps [simp del] parse_elements.simps [simp del] parse_members.simps [simp del]

section \<open>Reading what was written\<close>

lemma show_int_start: "\<exists>c t. show_int n = c # t \<and> number_start c"
  using digits_of_nat_Cons [of "nat n"] digits_of_nat_Cons [of "nat (- n)"]
  by (auto simp: show_int_def number_start_def)

lemma serialize_gap_start: "\<exists>c t. serialize_gap gap ind v = c # t \<and> value_start c"
proof (cases v)
  case (JNumber n)
  with show_int_start [of n] show ?thesis by (auto dest: number_start_value_start)
qed (simp_all add: quote_def bracketed_def)

lemma join_by_start:
  assumes "vs \<noteq> []" and "\<And>v. \<exists>c t. text v = c # t \<and> P c"
  shows "\<exists>c t. join_by sep (map text vs) = c # t \<and> P c"
  using assms(1) assms(2) [of "hd vs"]
  by (cases vs; cases "tl vs") (auto simp: join_by_Cons)

text \<open>
  The elements of an array, separated by a comma and white space and closed
  after white space, are read back one after the other when each of them is
  read back and the fuel covers them all.
\<close>

lemma parse_elements_laid_out:
  assumes "\<And>v n r. v \<in> set vs \<Longrightarrow> fuel_value v \<le> n \<Longrightarrow> \<not> starts_with_digit r \<Longrightarrow>
             parse_value n (text v @ r) = Some (v, r)"
    and "vs \<noteq> []" and "sum_list (map (\<lambda>v. Suc (fuel_value v)) vs) \<le> n"
    and w: "list_all is_json_space w" and w': "list_all is_json_space w'"
  shows "parse_elements n (join_by (CHR '','' # w) (map text vs) @ w' @ CHR '']'' # r)
           = Some (vs, r)"
  using assms(1-3)
proof (induction vs arbitrary: n)
  case (Cons v vs)
  from Cons.prems(3) obtain m where n: "n = Suc m" and v: "fuel_value v \<le> m"
    and vs: "sum_list (map (\<lambda>v. Suc (fuel_value v)) vs) \<le> m"
    by (cases n) simp_all
  show ?case
  proof (cases "vs = []")
    case True
    from w' have "\<not> starts_with_digit (w' @ CHR '']'' # r)"
      by (simp add: not_digit_after_space)
    with Cons.prems(1) [of v m] v
    have "parse_value m (text v @ w' @ CHR '']'' # r) = Some (v, w' @ CHR '']'' # r)" by simp
    then show ?thesis using True n w' by (simp add: parse_elements_last)
  next
    case False
    let ?t = "join_by (CHR '','' # w) (map text vs) @ w' @ CHR '']'' # r"
    from Cons.prems(1) [of v m "CHR '','' # w @ ?t"] v
    have "parse_value m (text v @ CHR '','' # w @ ?t) = Some (v, CHR '','' # w @ ?t)" by simp
    moreover from False Cons.IH [of m] Cons.prems(1) vs
    have "parse_elements m ?t = Some (vs, r)" by simp
    ultimately show ?thesis using False n w by (simp add: join_by_Cons parse_elements_more)
  qed
qed simp

text \<open>The same for the members of an object, with white space after the colon.\<close>

lemma parse_members_laid_out:
  assumes "\<And>kv n r. kv \<in> set kvs \<Longrightarrow> fuel_value (snd kv) \<le> n \<Longrightarrow> \<not> starts_with_digit r \<Longrightarrow>
             parse_value n (text (snd kv) @ r) = Some (snd kv, r)"
    and "kvs \<noteq> []" and "sum_list (map (\<lambda>kv. Suc (fuel_value (snd kv))) kvs) \<le> n"
    and sp: "list_all is_json_space sp" and w: "list_all is_json_space w"
    and w': "list_all is_json_space w'"
  shows "parse_members n
           (join_by (CHR '','' # w) (map (\<lambda>kv. member_text (fst kv) (sp @ text (snd kv))) kvs)
              @ w' @ CHR ''}'' # r) = Some (kvs, r)"
  using assms(1-3)
proof (induction kvs arbitrary: n)
  case (Cons kv kvs)
  from Cons.prems(3) obtain m where n: "n = Suc m" and v: "fuel_value (snd kv) \<le> m"
    and kvs: "sum_list (map (\<lambda>kv. Suc (fuel_value (snd kv))) kvs) \<le> m"
    by (cases n) simp_all
  have member: "\<exists>t. member_text (fst kv) (sp @ text (snd kv)) @ u = dquote # t
      \<and> unquote t = Some (fst kv, CHR '':'' # sp @ text (snd kv) @ u)" for u
    using unquote_quote [of "fst kv" "CHR '':'' # sp @ text (snd kv) @ u"]
    by (simp add: member_text_def)
  show ?case
  proof (cases "kvs = []")
    case True
    from member [of "w' @ CHR ''}'' # r"] obtain t
      where t: "member_text (fst kv) (sp @ text (snd kv)) @ w' @ CHR ''}'' # r = dquote # t"
        and k: "unquote t = Some (fst kv, CHR '':'' # sp @ text (snd kv) @ w' @ CHR ''}'' # r)"
      by blast
    from w' have "\<not> starts_with_digit (w' @ CHR ''}'' # r)"
      by (simp add: not_digit_after_space)
    with Cons.prems(1) [of kv m] v
    have "parse_value m (text (snd kv) @ w' @ CHR ''}'' # r) = Some (snd kv, w' @ CHR ''}'' # r)"
      by simp
    with k sp w' have "parse_members (Suc m) (dquote # t) = Some ([kv], r)"
      by (simp add: parse_members_last)
    with True n t show ?thesis by simp
  next
    case False
    let ?u = "join_by (CHR '','' # w) (map (\<lambda>kv. member_text (fst kv) (sp @ text (snd kv))) kvs)
                @ w' @ CHR ''}'' # r"
    from member [of "CHR '','' # w @ ?u"] obtain t
      where t: "member_text (fst kv) (sp @ text (snd kv)) @ CHR '','' # w @ ?u = dquote # t"
        and k: "unquote t = Some (fst kv, CHR '':'' # sp @ text (snd kv) @ CHR '','' # w @ ?u)"
      by blast
    from Cons.prems(1) [of kv m "CHR '','' # w @ ?u"] v
    have "parse_value m (text (snd kv) @ CHR '','' # w @ ?u) = Some (snd kv, CHR '','' # w @ ?u)"
      by simp
    moreover from False Cons.IH [of m] Cons.prems(1) kvs
    have "parse_members m ?u = Some (kvs, r)" by simp
    ultimately have "parse_members (Suc m) (dquote # t) = Some (kv # kvs, r)"
      using k sp w by (simp add: parse_members_more)
    with False n t show ?thesis by (simp add: join_by_Cons)
  qed
qed simp

text \<open>
  A written value is read back, whatever follows it, provided that the gap
  and the indentation are white space, no digit follows a number and the fuel
  covers the value.
\<close>

lemma newline_space:
  "list_all is_json_space gap \<Longrightarrow> list_all is_json_space ind \<Longrightarrow>
   list_all is_json_space (newline gap ind) \<and> list_all is_json_space (colon_space gap)"
  by (simp add: newline_def colon_space_def is_json_space_def)

lemma parse_value_serialize_gap:
  assumes "list_all is_json_space gap" and "list_all is_json_space ind"
    and "fuel_value v \<le> n" and "\<not> starts_with_digit r"
  shows "parse_value n (serialize_gap gap ind v @ r) = Some (v, r)"
  using assms(2-4)
proof (induction v arbitrary: ind n r)
  case (JString s)
  then obtain m where "n = Suc m" by (cases n) simp_all
  with unquote_quote [of s r] show ?case by (auto simp: parse_value_string)
next
  case (JNumber i)
  then obtain m where n: "n = Suc m" by (cases n) simp_all
  obtain c t where c: "show_int i = c # t" "number_start c" using show_int_start by blast
  then have "parse_value (Suc m) (show_int i @ r)
      = map_option (apfst JNumber) (parse_int (show_int i @ r))"
    by (simp add: parse_value_number)
  with JNumber.prems n show ?case by (simp add: parse_int_show_int)
next
  case (JArray vs)
  then obtain m where n: "n = Suc m" and m: "sum_list (map (\<lambda>v. Suc (fuel_value v)) vs) \<le> m"
    by (cases n) simp_all
  let ?ind = "ind @ gap"
  from assms(1) JArray.prems(1) have ind: "list_all is_json_space ?ind" by simp
  note sp = newline_space [OF assms(1) ind] newline_space [OF assms(1) JArray.prems(1)]
  show ?case
  proof (cases "vs = []")
    case True
    with n show ?thesis using parse_value_empty_array [of m r] by (simp add: bracketed_def)
  next
    case False
    let ?es = "join_by (CHR '','' # newline gap ?ind) (map (serialize_gap gap ?ind) vs)"
    from False obtain c t where c: "?es = c # t" "value_start c"
      using join_by_start [of vs "serialize_gap gap ?ind" value_start] serialize_gap_start
      by blast
    from False m sp ind have "parse_elements m (?es @ newline gap ind @ CHR '']'' # r) = Some (vs, r)"
      by (intro parse_elements_laid_out JArray.IH) simp_all
    with c n False sp show ?thesis by (simp add: bracketed_def parse_value_array)
  qed
next
  case (JObject kvs)
  then obtain m where n: "n = Suc m"
    and m: "sum_list (map (\<lambda>kv. Suc (fuel_value (snd kv))) kvs) \<le> m"
    by (cases n) simp_all
  let ?ind = "ind @ gap"
  from assms(1) JObject.prems(1) have ind: "list_all is_json_space ?ind" by simp
  note sp = newline_space [OF assms(1) ind] newline_space [OF assms(1) JObject.prems(1)]
  let ?ms = "join_by (CHR '','' # newline gap ?ind)
      (map (\<lambda>kv. member_text (fst kv) (colon_space gap @ serialize_gap gap ?ind (snd kv))) kvs)"
  show ?case
  proof (cases "kvs = []")
    case True
    with n show ?thesis using parse_value_empty_object [of m r] by (simp add: bracketed_def)
  next
    case False
    then obtain t where t: "?ms = dquote # t"
      by (cases kvs; cases "tl kvs") (auto simp: join_by_Cons member_text_def quote_def)
    from False m sp ind have "parse_members m (?ms @ newline gap ind @ CHR ''}'' # r) = Some (kvs, r)"
      by (intro parse_members_laid_out JObject.IH) (auto simp: snds.simps)
    with t n False sp show ?thesis by (simp add: bracketed_def parse_value_object)
  qed
qed

text \<open>With the empty gap the laid-out text is the compact text.\<close>

lemma serialize_gap_compact: "serialize_gap [] ind v = serialize v"
proof (induction v arbitrary: ind)
  case (JArray vs)
  then have "map (serialize_gap [] ind) vs = map serialize vs" by simp
  then show ?case
    by (simp only: serialize_gap.simps serialize.simps bracketed_def newline_def
        join_with_join_by append_Nil2 if_True)
      simp
next
  case (JObject kvs)
  then have "map (\<lambda>kv. member_text (fst kv) (colon_space [] @ serialize_gap [] ind (snd kv))) kvs
      = map (\<lambda>kv. member_text (fst kv) (serialize (snd kv))) kvs"
    by (auto simp: colon_space_def snds.simps)
  then show ?case
    by (simp only: serialize_gap.simps serialize.simps bracketed_def newline_def
        join_with_join_by append_Nil2 if_True)
      simp
qed simp_all

lemma parse_value_serialize:
  "fuel_value v \<le> n \<Longrightarrow> \<not> starts_with_digit r \<Longrightarrow> parse_value n (serialize v @ r) = Some (v, r)"
  using parse_value_serialize_gap [of "[]" "[]" v n r] by (simp add: serialize_gap_compact)

section \<open>The fuel is enough\<close>

lemma length_join_with:
  "sum_list (map (\<lambda>w. Suc (length w)) ws) \<le> Suc (length (join_with x ws))"
  by (induction x ws rule: join_with.induct) simp_all

lemma sum_list_Suc_mono:
  "(\<And>x. x \<in> set xs \<Longrightarrow> f x \<le> g x) \<Longrightarrow>
   sum_list (map (\<lambda>x. Suc (f x)) xs) \<le> sum_list (map (\<lambda>x. Suc (g x)) xs)"
  by (intro sum_list_mono) simp

text \<open>A value takes no more fuel than its text has characters.\<close>

lemma fuel_value_le_length: "fuel_value v \<le> length (serialize v)"
proof (induction v)
  case (JString s)
  show ?case by (simp add: quote_def)
next
  case (JNumber n)
  from show_int_start [of n] show ?case by auto
next
  case (JArray vs)
  then have "sum_list (map (\<lambda>v. Suc (fuel_value v)) vs)
      \<le> sum_list (map (\<lambda>v. Suc (length (serialize v))) vs)"
    by (intro sum_list_Suc_mono)
  also have "\<dots> = sum_list (map (\<lambda>w. Suc (length w)) (map serialize vs))"
    by (simp add: comp_def)
  also note length_join_with [of "map serialize vs" "CHR '',''"]
  finally show ?case by simp
next
  case (JObject kvs)
  let ?member = "\<lambda>kv. member_text (fst kv) (serialize (snd kv))"
  from JObject have "sum_list (map (\<lambda>kv. Suc (fuel_value (snd kv))) kvs)
      \<le> sum_list (map (\<lambda>kv. Suc (length (?member kv))) kvs)"
    by (intro sum_list_Suc_mono le_trans [OF JObject.IH]) (auto simp: snds.simps member_text_def)
  also have "\<dots> = sum_list (map (\<lambda>w. Suc (length w)) (map ?member kvs))"
    by (simp add: comp_def)
  also note length_join_with [of "map ?member kvs" "CHR '',''"]
  finally show ?case by simp
qed

text \<open>Reading the text of a value gives the value.\<close>

lemma parse_json_serialize: "parse_json (serialize v) = Some v"
  using parse_value_serialize [of v "Suc (length (serialize v))" "[]"] fuel_value_le_length [of v]
  by (simp add: parse_json_def)

end
