(* ===== verification/JSON_Fuel.thy ===== *)
theory JSON_Fuel
  imports JSON_Text
begin

text \<open>
  The fuel of the reader decides nothing: more fuel never changes a result,
  and a reading that succeeds consumes at least as many characters as it
  needs fuel. So \<open>parse_json\<close>, which takes the length of the text as fuel,
  reads every text that can be read at all.
\<close>

section \<open>More fuel changes nothing\<close>

text \<open>
  A reading that succeeds with some fuel succeeds with the same result with
  more.
\<close>

lemma parse_fuel_Suc_all:
  "(\<forall>s x. parse_value n s = Some x \<longrightarrow> parse_value (Suc n) s = Some x) \<and>
   (\<forall>s y. parse_elements n s = Some y \<longrightarrow> parse_elements (Suc n) s = Some y) \<and>
   (\<forall>s z. parse_members n s = Some z \<longrightarrow> parse_members (Suc n) s = Some z)"
proof (induction n)
  case 0
  show ?case by (simp add: parse_value.simps parse_elements.simps parse_members.simps)
next
  case (Suc n)
  then have v: "\<And>s x. parse_value n s = Some x \<Longrightarrow> parse_value (Suc n) s = Some x"
    and e: "\<And>s y. parse_elements n s = Some y \<Longrightarrow> parse_elements (Suc n) s = Some y"
    and m: "\<And>s z. parse_members n s = Some z \<Longrightarrow> parse_members (Suc n) s = Some z"
    by blast+
  have "parse_value (Suc (Suc n)) s = Some x" if h: "parse_value (Suc n) s = Some x" for s x
    using h e m
    by (subst parse_value.simps, subst (asm) parse_value.simps)
      (auto split: list.splits if_splits)
  moreover have "parse_elements (Suc (Suc n)) s = Some y" if h: "parse_elements (Suc n) s = Some y" for s y
    using h v e
    by (subst parse_elements.simps, subst (asm) parse_elements.simps)
      (auto split: list.splits if_splits option.splits)
  moreover have "parse_members (Suc (Suc n)) s = Some z" if h: "parse_members (Suc n) s = Some z" for s z
    using h v m
    by (subst parse_members.simps, subst (asm) parse_members.simps)
      (auto split: list.splits if_splits option.splits)
  ultimately show ?case by blast
qed


lemma parse_value_fuel_mono:
  assumes "parse_value n s = Some x" and "n \<le> m"
  shows "parse_value m s = Some x"
  using assms(2,1) by (induction rule: dec_induct) (simp_all add: parse_fuel_Suc_all)

lemma parse_elements_fuel_mono:
  assumes "parse_elements n s = Some x" and "n \<le> m"
  shows "parse_elements m s = Some x"
  using assms(2,1) by (induction rule: dec_induct) (simp_all add: parse_fuel_Suc_all)

lemma parse_members_fuel_mono:
  assumes "parse_members n s = Some x" and "n \<le> m"
  shows "parse_members m s = Some x"
  using assms(2,1) by (induction rule: dec_induct) (simp_all add: parse_fuel_Suc_all)

section \<open>What a successful reading consumed\<close>

lemma length_skip_ws: "length (skip_ws s) \<le> length s"
  by (simp add: skip_ws_def length_dropWhile_le)

lemma unquote_shorter: "unquote s = Some (x, r) \<Longrightarrow> length r < length s"
  by (induction s arbitrary: x rule: unquote.induct)
    (fastforce split: if_splits list.splits option.splits)+

lemma scan_json_nat_shorter: "scan_json_nat s = Some (n, r) \<Longrightarrow> length r < length s"
proof -
  assume "scan_json_nat s = Some (n, r)"
  then obtain ds where "scan_digits s = Some (ds, r)"
    by (auto simp: scan_json_nat_def split: option.splits if_splits)
  from scan_digits_SomeD(1,2) [OF this] show ?thesis by simp
qed

lemma parse_int_shorter: "parse_int s = Some (n, r) \<Longrightarrow> length r < length s"
  by (auto simp: parse_int_def strip_prefix_Some_iff split: option.splits
      dest!: scan_json_nat_shorter)


lemma skip_ws_ConsD: "skip_ws s = c # t \<Longrightarrow> length t < length s"
  using length_skip_ws [of s] by simp

lemma parse_value_cases:
  assumes "parse_value (Suc n) s = Some (v, r)"
  obtains (string) t x where "skip_ws s = dquote # t" and "unquote t = Some (x, r)"
      and "v = JString x"
    | (empty_array) t where "skip_ws s = CHR ''['' # t" and "skip_ws t = CHR '']'' # r"
      and "v = JArray []"
    | (array) t d u vs where "skip_ws s = CHR ''['' # t" and "skip_ws t = d # u"
      and "d \<noteq> CHR '']''" and "parse_elements n t = Some (vs, r)" and "v = JArray vs"
    | (empty_object) t where "skip_ws s = CHR ''{'' # t" and "skip_ws t = CHR ''}'' # r"
      and "v = JObject []"
    | (object) t d u kvs where "skip_ws s = CHR ''{'' # t" and "skip_ws t = d # u"
      and "d \<noteq> CHR ''}''" and "parse_members n t = Some (kvs, r)" and "v = JObject kvs"
    | (number) c t i where "skip_ws s = c # t" and "c \<noteq> dquote" and "c \<noteq> CHR ''[''"
      and "c \<noteq> CHR ''{''" and "parse_int (c # t) = Some (i, r)" and "v = JNumber i"
  using assms by (auto simp: parse_value.simps split: list.splits if_splits)

lemma parse_elements_cases:
  assumes "parse_elements (Suc n) s = Some (vs, r)"
  obtains (last) v t where "parse_value n s = Some (v, t)" and "skip_ws t = CHR '']'' # r"
      and "vs = [v]"
    | (more) v t u ws where "parse_value n s = Some (v, t)" and "skip_ws t = CHR '','' # u"
      and "parse_elements n u = Some (ws, r)" and "vs = v # ws"
  using assms by (auto simp: parse_elements.simps split: list.splits if_splits option.splits)

lemma parse_members_cases:
  assumes "parse_members (Suc n) s = Some (kvs, r)"
  obtains (last) t k t1 t2 v t3 where "skip_ws s = dquote # t" and "unquote t = Some (k, t1)"
      and "skip_ws t1 = CHR '':'' # t2" and "parse_value n t2 = Some (v, t3)"
      and "skip_ws t3 = CHR ''}'' # r" and "kvs = [(k, v)]"
    | (more) t k t1 t2 v t3 t4 ws where "skip_ws s = dquote # t" and "unquote t = Some (k, t1)"
      and "skip_ws t1 = CHR '':'' # t2" and "parse_value n t2 = Some (v, t3)"
      and "skip_ws t3 = CHR '','' # t4" and "parse_members n t4 = Some (ws, r)"
      and "kvs = (k, v) # ws"
  using assms by (auto simp: parse_members.simps split: list.splits if_splits option.splits)


section \<open>The length of the text is fuel enough\<close>

text \<open>
  A reader stays \<open>within_length\<close> at a fuel when every reading that succeeds
  there consumes at least one character and succeeds as well with as much
  fuel as it consumes characters.
\<close>

definition within_length :: "(nat \<Rightarrow> 'a scanner) \<Rightarrow> nat \<Rightarrow> bool" where
  "within_length f n \<longleftrightarrow>
     (\<forall>s x r. f n s = Some (x, r) \<longrightarrow>
        length r < length s \<and> f (length s - length r) s = Some (x, r))"

lemma within_lengthD:
  assumes "within_length f n" and "f n s = Some (x, r)"
  shows "length r < length s" and "f (length s - length r) s = Some (x, r)"
  using assms by (simp_all add: within_length_def)

lemma parse_value_within_length:
  assumes E: "within_length parse_elements n" and M: "within_length parse_members n"
  shows "within_length parse_value (Suc n)"
  unfolding within_length_def
proof (intro allI impI)
  fix s v r
  assume "parse_value (Suc n) s = Some (v, r)"
  then show "length r < length s \<and> parse_value (length s - length r) s = Some (v, r)"
  proof (cases rule: parse_value_cases)
    case (string t x)
    from unquote_shorter [OF string(2)] skip_ws_ConsD [OF string(1)]
    obtain k where "length r < length s" and "length s - length r = Suc k"
      by (cases "length s - length r") simp_all
    with string show ?thesis by (simp add: parse_value.simps)
  next
    case (empty_array t)
    from skip_ws_ConsD [OF empty_array(1)] skip_ws_ConsD [OF empty_array(2)]
    obtain k where "length r < length s" and "length s - length r = Suc k"
      by (cases "length s - length r") simp_all
    with empty_array show ?thesis by (simp add: parse_value.simps)
  next
    case (array t d u vs)
    note es = within_lengthD [OF E array(4)]
    from skip_ws_ConsD [OF array(1)] es(1)
    obtain k where "length r < length s" and k: "length s - length r = Suc k"
      and "length t - length r \<le> k"
      by (cases "length s - length r") simp_all
    moreover from this(3) have "parse_elements k t = Some (vs, r)"
      by (rule parse_elements_fuel_mono [OF es(2)])
    ultimately show ?thesis using array by (simp add: parse_value.simps)
  next
    case (empty_object t)
    from skip_ws_ConsD [OF empty_object(1)] skip_ws_ConsD [OF empty_object(2)]
    obtain k where "length r < length s" and "length s - length r = Suc k"
      by (cases "length s - length r") simp_all
    with empty_object show ?thesis by (simp add: parse_value.simps)
  next
    case (object t d u kvs)
    note ms = within_lengthD [OF M object(4)]
    from skip_ws_ConsD [OF object(1)] ms(1)
    obtain k where "length r < length s" and k: "length s - length r = Suc k"
      and "length t - length r \<le> k"
      by (cases "length s - length r") simp_all
    moreover from this(3) have "parse_members k t = Some (kvs, r)"
      by (rule parse_members_fuel_mono [OF ms(2)])
    ultimately show ?thesis using object by (simp add: parse_value.simps)
  next
    case (number c t i)
    from skip_ws_ConsD [OF number(1)] parse_int_shorter [OF number(5)]
    obtain k where "length r < length s" and "length s - length r = Suc k"
      by (cases "length s - length r") simp_all
    with number show ?thesis by (simp add: parse_value.simps)
  qed
qed

lemma parse_elements_within_length:
  assumes V: "within_length parse_value n" and E: "within_length parse_elements n"
  shows "within_length parse_elements (Suc n)"
  unfolding within_length_def
proof (intro allI impI)
  fix s vs r
  assume "parse_elements (Suc n) s = Some (vs, r)"
  then show "length r < length s \<and> parse_elements (length s - length r) s = Some (vs, r)"
  proof (cases rule: parse_elements_cases)
    case (last v t)
    note v = within_lengthD [OF V last(1)]
    from v(1) skip_ws_ConsD [OF last(2)]
    obtain k where "length r < length s" and "length s - length r = Suc k"
      and "length s - length t \<le> k"
      by (cases "length s - length r") simp_all
    moreover from this(3) have "parse_value k s = Some (v, t)"
      by (rule parse_value_fuel_mono [OF v(2)])
    ultimately show ?thesis using last by (simp add: parse_elements.simps)
  next
    case (more v t u ws)
    note v = within_lengthD [OF V more(1)] and es = within_lengthD [OF E more(3)]
    from v(1) skip_ws_ConsD [OF more(2)] es(1)
    obtain k where "length r < length s" and "length s - length r = Suc k"
      and "length s - length t \<le> k" and "length u - length r \<le> k"
      by (cases "length s - length r") simp_all
    moreover from this(3) have "parse_value k s = Some (v, t)"
      by (rule parse_value_fuel_mono [OF v(2)])
    moreover from calculation(4) have "parse_elements k u = Some (ws, r)"
      by (rule parse_elements_fuel_mono [OF es(2)])
    ultimately show ?thesis using more by (simp add: parse_elements.simps)
  qed
qed

lemma parse_members_within_length:
  assumes V: "within_length parse_value n" and M: "within_length parse_members n"
  shows "within_length parse_members (Suc n)"
  unfolding within_length_def
proof (intro allI impI)
  fix s kvs r
  assume "parse_members (Suc n) s = Some (kvs, r)"
  then show "length r < length s \<and> parse_members (length s - length r) s = Some (kvs, r)"
  proof (cases rule: parse_members_cases)
    case (last t k t1 t2 v t3)
    note v = within_lengthD [OF V last(4)]
    from skip_ws_ConsD [OF last(1)] unquote_shorter [OF last(2)] skip_ws_ConsD [OF last(3)]
      v(1) skip_ws_ConsD [OF last(5)]
    obtain j where "length r < length s" and "length s - length r = Suc j"
      and "length t2 - length t3 \<le> j"
      by (cases "length s - length r") simp_all
    moreover from this(3) have "parse_value j t2 = Some (v, t3)"
      by (rule parse_value_fuel_mono [OF v(2)])
    ultimately show ?thesis using last by (simp add: parse_members.simps)
  next
    case (more t k t1 t2 v t3 t4 ws)
    note v = within_lengthD [OF V more(4)] and ms = within_lengthD [OF M more(6)]
    from skip_ws_ConsD [OF more(1)] unquote_shorter [OF more(2)] skip_ws_ConsD [OF more(3)]
      v(1) skip_ws_ConsD [OF more(5)] ms(1)
    obtain j where "length r < length s" and "length s - length r = Suc j"
      and "length t2 - length t3 \<le> j" and "length t4 - length r \<le> j"
      by (cases "length s - length r") simp_all
    moreover from this(3) have "parse_value j t2 = Some (v, t3)"
      by (rule parse_value_fuel_mono [OF v(2)])
    moreover from calculation(4) have "parse_members j t4 = Some (ws, r)"
      by (rule parse_members_fuel_mono [OF ms(2)])
    ultimately show ?thesis using more by (simp add: parse_members.simps)
  qed
qed

lemma parsers_within_length:
  "within_length parse_value n \<and> within_length parse_elements n \<and> within_length parse_members n"
proof (induction n)
  case 0
  show ?case
    by (simp add: within_length_def parse_value.simps parse_elements.simps parse_members.simps)
next
  case (Suc n)
  then show ?case
    by (simp add: parse_value_within_length parse_elements_within_length
        parse_members_within_length)
qed

text \<open>
  So the fuel that \<open>parse_json\<close> takes is enough for every text: a text that
  can be read with some fuel is read by \<open>parse_json\<close>, with the same result.
\<close>

lemma parse_value_length_fuel:
  assumes "parse_value n s = Some (v, r)"
  shows "parse_value (Suc (length s)) s = Some (v, r)"
proof -
  from parsers_within_length have "within_length parse_value n" by blast
  from within_lengthD(2) [OF this assms] show ?thesis
    by (rule parse_value_fuel_mono) simp
qed

lemma parse_json_iff:
  "parse_json s = Some v \<longleftrightarrow> (\<exists>n r. parse_value n s = Some (v, r) \<and> skip_ws r = [])"
proof
  assume "parse_json s = Some v"
  then obtain r where "parse_value (Suc (length s)) s = Some (v, r)" and "skip_ws r = []"
    by (auto simp: parse_json_def split: option.splits if_splits)
  then show "\<exists>n r. parse_value n s = Some (v, r) \<and> skip_ws r = []" by blast
next
  assume "\<exists>n r. parse_value n s = Some (v, r) \<and> skip_ws r = []"
  then obtain n r where "parse_value n s = Some (v, r)" and "skip_ws r = []" by blast
  with parse_value_length_fuel [of n s v r] show "parse_json s = Some v"
    by (simp add: parse_json_def)
qed

end
