(* ===== verification/JSON_Reload.thy ===== *)
theory JSON_Reload
  imports JS_Object JSON_Fuel "HOL-Library.Multiset"
begin

text \<open>
  Writing the configuration and loading it again, as the runtime does it:
  \<open>stringify\<close> writes the object that a literal denotes, with its members in
  the order in which the runtime enumerates them, \<open>stringify_space\<close> writes
  it on several lines, and \<open>reload\<close> reads a text and builds the object that
  it denotes.
\<close>

section \<open>The order of the members\<close>

text \<open>
  The runtime lists the properties of an object with the array indices first,
  in ascending order, and the other keys in the order in which they were
  created. \<open>key_order\<close> puts the bindings of every object of a value in this
  order.
\<close>

definition enumeration :: "(string, 'v) alist \<Rightarrow> (string, 'v) alist" where
  "enumeration kvs =
     sort_key (\<lambda>kv. nat_of_digits (fst kv)) (filter (\<lambda>kv. is_index_key (fst kv)) kvs)
       @ filter (\<lambda>kv. \<not> is_index_key (fst kv)) kvs"

fun key_order :: "js_value \<Rightarrow> js_value" where
  "key_order (JString s) = JString s"
| "key_order (JNumber n) = JNumber n"
| "key_order (JArray vs) = JArray (map key_order vs)"
| "key_order (JObject kvs) = JObject (enumeration (map (\<lambda>kv. (fst kv, key_order (snd kv))) kvs))"

lemma enumeration_plain:
  "list_all (\<lambda>kv. \<not> is_index_key (fst kv)) kvs \<Longrightarrow> enumeration kvs = kvs"
  by (simp add: enumeration_def list_all_iff filter_id_conv filter_empty_conv)

text \<open>
  The enumeration permutes the bindings. When no key is bound twice it lists
  the keys as \<open>own_keys\<close> does, and a key reads the same value.
\<close>

lemma mset_enumeration: "mset (enumeration kvs) = mset kvs"
  by (simp add: enumeration_def)

lemma set_enumeration [simp]: "set (enumeration kvs) = set kvs"
  by (rule mset_eq_setD) (rule mset_enumeration)

lemma distinct_keys_enumeration [simp]:
  "distinct (keys_of (enumeration kvs)) \<longleftrightarrow> distinct (keys_of kvs)"
  by (rule mset_eq_imp_distinct_iff) (metis mset_map mset_enumeration)

lemma map_insort_key: "map g (insort_key (\<lambda>x. f (g x)) x ys) = insort_key f (g x) (map g ys)"
  by (induction ys) simp_all

lemma map_sort_key: "map g (sort_key (\<lambda>x. f (g x)) xs) = sort_key f (map g xs)"
  by (induction xs) (simp_all add: map_insort_key)

lemma keys_of_enumeration:
  "keys_of (enumeration kvs) =
     sort_key nat_of_digits (filter is_index_key (keys_of kvs))
       @ filter (\<lambda>k. \<not> is_index_key k) (keys_of kvs)"
  by (simp add: enumeration_def map_sort_key filter_map comp_def)

lemma own_keys_enumeration:
  "distinct (keys_of kvs) \<Longrightarrow> keys_of (enumeration kvs) = own_keys (JObject kvs)"
  by (simp add: keys_of_enumeration Let_def)

lemma lookup_last_enumeration:
  assumes "distinct (keys_of kvs)"
  shows "lookup_last (enumeration kvs) k = lookup_last kvs k"
proof -
  from assms have "map_of (enumeration kvs) = map_of kvs"
    using map_of_inject_set [of "enumeration kvs" kvs] by simp
  with assms show ?thesis by (simp add: lookup_last_distinct)
qed

lemma key_order_plain: "plain_keys v \<Longrightarrow> key_order v = v"
proof (induction v)
  case (JArray vs)
  then have "map key_order vs = vs"
    by (intro map_idI) (simp add: list_all_iff)
  then show ?case by simp
next
  case (JObject kvs)
  then have "map (\<lambda>kv. (fst kv, key_order (snd kv))) kvs = kvs"
    by (intro map_idI) (auto simp: snds.simps list_all_iff)
  with JObject.prems show ?case by (simp add: enumeration_plain)
qed simp_all

text \<open>
  Ordering the members of an object without repeated keys changes no read.
\<close>

lemma unique_keys_key_order: "unique_keys v \<Longrightarrow> unique_keys (key_order v)"
proof (induction v)
  case (JObject kvs)
  then show ?case by (auto simp: list_all_iff comp_def snds.simps)
qed (simp_all add: list_all_iff)

lemma own_prop_key_order:
  "unique_keys v \<Longrightarrow> own_prop (key_order v) k = map_option key_order (own_prop v k)"
proof (cases v)
  case (JObject kvs)
  assume "unique_keys v"
  with JObject have "distinct (keys_of (map (\<lambda>kv. (fst kv, key_order (snd kv))) kvs))"
    by (simp add: comp_def)
  with JObject show ?thesis by (simp add: lookup_last_enumeration lookup_last_map_values)
next
  case (JArray vs)
  then show ?thesis by (auto split: option.splits)
qed (auto split: if_splits option.splits)

lemma read_path_key_order:
  "unique_keys v \<Longrightarrow> read_path (key_order v) ks = map_sum id key_order (read_path v ks)"
proof (induction ks arbitrary: v)
  case Nil
  then show ?case by simp
next
  case (Cons k ks)
  then show ?case
    by (cases "own_prop v k") (simp_all add: own_prop_key_order unique_keys_own_prop)
qed

section \<open>Writing and reloading the configuration\<close>

text \<open>
  \<open>stringify\<close> writes the object that a literal denotes, as the runtime
  enumerates it. \<open>reload\<close> reads a text and builds the object it denotes.
\<close>

definition stringify :: "js_value \<Rightarrow> string" where
  "stringify v = serialize (key_order (evaluate v))"

definition reload :: "string \<Rightarrow> js_value option" where
  "reload s = map_option evaluate (parse_json s)"

lemma stringify_plain: "unique_keys v \<Longrightarrow> plain_keys v \<Longrightarrow> stringify v = serialize v"
  by (simp add: stringify_def evaluate_unique_keys key_order_plain)

text \<open>
  A value whose keys are unique and none of them an array index is written
  and reloaded unchanged.
\<close>

lemma reload_stringify: "unique_keys v \<Longrightarrow> plain_keys v \<Longrightarrow> reload (stringify v) = Some v"
  by (simp add: stringify_plain reload_def parse_json_serialize evaluate_unique_keys)

text \<open>
  In general the reloaded value is the runtime object in the order of its
  enumeration, and it answers every read as the literal does, with the value
  read put in the same form.
\<close>

lemma reload_stringify_any: "reload (stringify v) = Some (key_order (evaluate v))"
  by (simp add: reload_def stringify_def parse_json_serialize evaluate_unique_keys
      unique_keys_key_order)

text \<open>
  A text may bind a key of an object twice. Reloading the text that spells
  out a literal, repeated keys included, gives the object that the runtime
  builds from the literal: the reader merges repeated keys as the evaluation
  of a literal does.
\<close>

lemma reload_serialize: "reload (serialize v) = Some (evaluate v)"
  by (simp add: reload_def parse_json_serialize)

lemma read_path_reloaded:
  "read_path (key_order (evaluate v)) ks
     = map_sum id (\<lambda>w. key_order (evaluate w)) (read_path v ks)"
  by (simp add: read_path_key_order read_path_evaluate sum.map_comp comp_def id_def)

section \<open>What is written for an object\<close>

text \<open>
  The text of a literal, said with the reads and the enumeration of the
  literal itself: a string and a number are written as their tokens, an array
  as the texts of its elements, and an object as one member for each key that
  it enumerates, in the order of enumeration, with the text of the value
  that the key reads.
\<close>

lemma stringify_leaf: "stringify (JString s) = quote s" "stringify (JNumber n) = show_int n"
  by (simp_all add: stringify_def)

lemma stringify_array:
  "stringify (JArray vs) = CHR ''['' # join_with (CHR '','') (map stringify vs) @ '']''"
  by (simp add: stringify_def [abs_def] comp_def)

lemma stringify_object:
  "stringify (JObject kvs) =
     CHR ''{'' # join_with (CHR '','')
       (map (\<lambda>k. member_text k (stringify (the (own_prop (JObject kvs) k))))
          (own_keys (JObject kvs))) @ ''}''"
proof -
  let ?v = "JObject kvs"
  let ?O = "object_of (map (\<lambda>kv. (fst kv, evaluate (snd kv))) kvs)"
  let ?E = "enumeration (map (\<lambda>kv. (fst kv, key_order (snd kv))) ?O)"
  have E: "key_order (evaluate ?v) = JObject ?E" by simp
  have d: "distinct (keys_of ?E)" by (simp add: comp_def distinct_object_of)
  then have "keys_of ?E = own_keys (JObject (map (\<lambda>kv. (fst kv, key_order (snd kv))) ?O))"
    by (intro own_keys_enumeration) simp
  also have "\<dots> = own_keys (evaluate ?v)" by (simp add: comp_def)
  also have "\<dots> = own_keys ?v" by (rule own_keys_evaluate_object)
  finally have keys: "keys_of ?E = own_keys ?v" .
  have "serialize (snd kv) = stringify (the (own_prop ?v (fst kv)))" if "kv \<in> set ?E" for kv
  proof -
    from d that have "own_prop (JObject ?E) (fst kv) = Some (snd kv)"
      by (intro own_prop_object_member) simp_all
    then have "map_option (\<lambda>u. key_order (evaluate u)) (own_prop ?v (fst kv)) = Some (snd kv)"
      by (simp only: E [symmetric] own_prop_key_order [OF unique_keys_evaluate]
          own_prop_evaluate option.map_comp comp_def)
    then show ?thesis by (auto simp: stringify_def)
  qed
  then have "map (\<lambda>kv. member_text (fst kv) (serialize (snd kv))) ?E
      = map (\<lambda>kv. member_text (fst kv) (stringify (the (own_prop ?v (fst kv))))) ?E"
    by simp
  also have "\<dots> = map (\<lambda>k. member_text k (stringify (the (own_prop ?v k)))) (keys_of ?E)"
    by (simp add: comp_def)
  finally show ?thesis
    unfolding keys by (simp only: stringify_def [of ?v] E serialize.simps)
qed

section \<open>The text laid out on several lines\<close>

text \<open>
  Given a number of spaces, the runtime writes the object on several lines,
  indented by that number of spaces for each level, at most ten. The reader
  takes this text back as it takes the compact one.
\<close>

definition stringify_space :: "nat \<Rightarrow> js_value \<Rightarrow> string" where
  "stringify_space n v =
     serialize_gap (replicate (min 10 n) (CHR '' '')) [] (key_order (evaluate v))"

lemma parse_json_serialize_gap:
  assumes "list_all is_json_space gap"
  shows "parse_json (serialize_gap gap [] v) = Some v"
proof -
  from assms have "parse_value (fuel_value v) (serialize_gap gap [] v @ []) = Some (v, [])"
    by (intro parse_value_serialize_gap) simp_all
  then have "\<exists>n r. parse_value n (serialize_gap gap [] v) = Some (v, r) \<and> skip_ws r = []"
    by (intro exI [of _ "fuel_value v"] exI [of _ "[]"]) simp
  then show ?thesis by (simp only: parse_json_iff)
qed

lemma stringify_space_0: "stringify_space 0 v = stringify v"
  by (simp add: stringify_space_def stringify_def serialize_gap_compact)

lemma reload_stringify_space: "reload (stringify_space n v) = Some (key_order (evaluate v))"
  by (simp add: reload_def stringify_space_def parse_json_serialize_gap is_json_space_def
      list_all_iff evaluate_unique_keys unique_keys_key_order)

section \<open>Where the text model is exact\<close>

text \<open>
  The runtime keeps strings in UTF-16 and numbers as doubles. The model of
  the text is exact for the values whose strings and keys are ASCII and whose
  numbers are safe integers.
\<close>

definition ascii_text :: "string \<Rightarrow> bool" where
  "ascii_text s \<longleftrightarrow> list_all (\<lambda>c. (of_char c :: nat) < 128) s"

definition safe_integer :: "int \<Rightarrow> bool" where
  "safe_integer n \<longleftrightarrow> - 9007199254740991 \<le> n \<and> n \<le> 9007199254740991"

fun json_exact :: "js_value \<Rightarrow> bool" where
  "json_exact (JString s) = ascii_text s"
| "json_exact (JNumber n) = safe_integer n"
| "json_exact (JArray vs) = list_all json_exact vs"
| "json_exact (JObject kvs) = list_all (\<lambda>kv. ascii_text (fst kv) \<and> json_exact (snd kv)) kvs"

text \<open>The facts that evaluate the writer and the reader on a given input.\<close>

lemmas json_write_eval =
  stringify_def object_of_def define_property_def enumeration_def is_index_key_def index_key_def
  member_text_def quote_def escape_char_def control_chars_eval dquote_def backslash_def
  short_escapes_def show_int_def digits_of_nat.simps

lemmas json_read_eval =
  reload_def parse_json_def parse_value.simps parse_elements.simps
  parse_members.simps skip_ws_def is_json_space_def decode_escape_def decode_unicode_def
  hex4_def parse_int_def scan_json_nat_def ascii_table_def

lemmas json_exact_eval = ascii_text_def safe_integer_def

end
