(* ===== verification/JSON_Reject.thy ===== *)
theory JSON_Reject
  imports JSON_Fuel
begin

text \<open>
  Texts that the reader rejects, each a family over all values, strings or
  numbers: a comma before the closing bracket or brace (which the object
  literal of the source has after every last entry), a single quotation mark
  (with which the source writes its strings), a number with a leading zero,
  a string that is not closed, a second value after the first, and a text of
  spaces only.
\<close>

section \<open>What a written value can be read as\<close>

text \<open>
  Whatever the fuel, the text of a value reads as this value or not at all.
\<close>

lemma parse_value_serialize_only:
  assumes "parse_value n (serialize v @ r) = Some x" and "\<not> starts_with_digit r"
  shows "x = (v, r)"
proof -
  let ?m = "max n (fuel_value v)"
  from assms(1) have "parse_value ?m (serialize v @ r) = Some x"
    by (rule parse_value_fuel_mono) simp
  moreover from assms(2) have "parse_value ?m (serialize v @ r) = Some (v, r)"
    by (intro parse_value_serialize) simp
  ultimately show ?thesis by simp
qed

lemma parse_int_no_number: "\<not> number_start c \<Longrightarrow> parse_int (c # s) = None"
  by (auto simp: parse_int_def scan_json_nat_def scan_digits_def number_start_def)

text \<open>No value begins with a closing bracket, a closing brace or a comma.\<close>

lemma parse_value_no_start:
  assumes "\<not> value_start c" and "\<not> is_json_space c"
  shows "parse_value n (c # s) = None"
proof (cases n)
  case 0
  then show ?thesis by (simp add: parse_value.simps)
next
  case (Suc m)
  from assms(1) have "c \<noteq> dquote" "c \<noteq> CHR ''[''" "c \<noteq> CHR ''{''" "\<not> number_start c"
    by (auto simp: value_start_def number_start_def)
  with Suc assms(2) show ?thesis
    by (simp add: parse_value.simps skip_ws_Cons parse_int_no_number)
qed

lemma delimiters_no_value_start [simp]:
  "\<not> value_start (CHR '']'')" "\<not> value_start (CHR ''}'')" "\<not> value_start (CHR '','')"
  by (simp_all add: value_start_def dquote_def)

lemma parse_value_delimiter:
  "parse_value n (CHR '']'' # s) = None" "parse_value n (CHR ''}'' # s) = None"
  "parse_value n (CHR '','' # s) = None"
  by (simp_all add: parse_value_no_start)

section \<open>A comma before the closing bracket or brace\<close>

lemma parse_elements_comma_None:
  assumes "parse_elements m rest = None"
  shows "parse_elements (Suc m) (serialize v @ CHR '','' # rest) = None"
proof (cases "parse_value m (serialize v @ CHR '','' # rest)")
  case None
  then show ?thesis by (simp add: parse_elements.simps)
next
  case (Some x)
  then have "x = (v, CHR '','' # rest)" by (rule parse_value_serialize_only) simp
  with Some assms show ?thesis by (simp add: parse_elements.simps)
qed

lemma parse_elements_trailing_comma:
  "vs \<noteq> [] \<Longrightarrow> parse_elements n (join_with (CHR '','') (map serialize vs) @ '',]'' @ r) = None"
proof (induction vs arbitrary: n)
  case (Cons v vs)
  show ?case
  proof (cases n)
    case 0
    then show ?thesis by (simp add: parse_elements.simps)
  next
    case (Suc m)
    show ?thesis
    proof (cases "vs = []")
      case True
      have "parse_elements m (CHR '']'' # r) = None"
        by (cases m) (simp_all add: parse_elements.simps parse_value_delimiter)
      from parse_elements_comma_None [OF this, of v] True Suc show ?thesis by simp
    next
      case False
      from parse_elements_comma_None [OF Cons.IH [OF False, of m], of v] False Suc
      show ?thesis by (simp add: join_with_Cons)
    qed
  qed
qed simp

lemma parse_members_comma_None:
  assumes "parse_members m rest = None"
  shows "parse_members (Suc m) (member_text k (serialize v) @ CHR '','' # rest) = None"
proof -
  from unquote_quote [of k "CHR '':'' # serialize v @ CHR '','' # rest"] obtain t
    where t: "member_text k (serialize v) @ CHR '','' # rest = dquote # t"
      and k: "unquote t = Some (k, CHR '':'' # serialize v @ CHR '','' # rest)"
    by (auto simp: member_text_def)
  show ?thesis
  proof (cases "parse_value m (serialize v @ CHR '','' # rest)")
    case None
    with t k show ?thesis by (simp add: parse_members.simps)
  next
    case (Some x)
    then have "x = (v, CHR '','' # rest)" by (rule parse_value_serialize_only) simp
    with Some t k assms show ?thesis by (simp add: parse_members.simps)
  qed
qed

lemma parse_members_trailing_comma:
  "kvs \<noteq> [] \<Longrightarrow>
   parse_members n
     (join_with (CHR '','') (map (\<lambda>kv. member_text (fst kv) (serialize (snd kv))) kvs)
        @ '',}'' @ r) = None"
proof (induction kvs arbitrary: n)
  case (Cons kv kvs)
  show ?case
  proof (cases n)
    case 0
    then show ?thesis by (simp add: parse_members.simps)
  next
    case (Suc m)
    show ?thesis
    proof (cases "kvs = []")
      case True
      have "parse_members m (CHR ''}'' # r) = None"
        by (cases m) (simp_all add: parse_members.simps)
      from parse_members_comma_None [OF this, of "fst kv" "snd kv"] True Suc
      show ?thesis by simp
    next
      case False
      from parse_members_comma_None [OF Cons.IH [OF False, of m], of "fst kv" "snd kv"] False Suc
      show ?thesis by (simp add: join_with_Cons)
    qed
  qed
qed simp

lemma parse_json_trailing_comma_array:
  "parse_json (CHR ''['' # join_with (CHR '','') (map serialize vs) @ '',]'') = None"
proof (cases "vs = []")
  case True
  then show ?thesis
    by (simp add: parse_json_def parse_value.simps parse_elements.simps parse_value_delimiter)
next
  case False
  then obtain c t where "join_with (CHR '','') (map serialize vs) = c # t" "value_start c"
    using join_by_start [of vs serialize value_start "'',''"] serialize_gap_start [of "[]" "[]"]
    by (auto simp: join_with_join_by serialize_gap_compact)
  with False parse_elements_trailing_comma [of vs _ "[]"] show ?thesis
    by (simp add: parse_json_def parse_value_array [of "[]", simplified])
qed

lemma parse_json_trailing_comma_object:
  "parse_json
     (CHR ''{'' # join_with (CHR '','') (map (\<lambda>kv. member_text (fst kv) (serialize (snd kv))) kvs)
        @ '',}'') = None"
proof (cases "kvs = []")
  case True
  then show ?thesis
    by (simp add: parse_json_def parse_value.simps parse_members.simps)
next
  case False
  then obtain t
    where "join_with (CHR '','') (map (\<lambda>kv. member_text (fst kv) (serialize (snd kv))) kvs)
      = dquote # t"
    by (cases kvs; cases "tl kvs") (auto simp: join_with_Cons member_text_def quote_def)
  with False parse_members_trailing_comma [of kvs _ "[]"] show ?thesis
    by (simp add: parse_json_def parse_value_object [of "[]", simplified])
qed

section \<open>Malformed tokens and texts\<close>

text \<open>A single quotation mark begins no value.\<close>

lemma parse_json_single_quote: "parse_json (CHR 0x27 # t) = None"
proof -
  have "\<not> value_start (CHR 0x27)" "\<not> is_json_space (CHR 0x27)"
    by (simp_all add: value_start_def is_json_space_def dquote_def lex_defs)
  then show ?thesis by (simp add: parse_json_def parse_value_no_start)
qed

lemma parse_json_leading_zero: "parse_json (CHR ''0'' # digits_of_nat n) = None"
proof -
  have "scan_digits (CHR ''0'' # digits_of_nat n) = Some (CHR ''0'' # digits_of_nat n, [])"
    using scan_digits_append [of "CHR ''0'' # digits_of_nat n" "[]"] by (simp add: lex_defs)
  then have "parse_int (CHR ''0'' # digits_of_nat n) = None"
    by (simp add: parse_int_def scan_json_nat_def)
  then show ?thesis
    by (simp add: parse_json_def parse_value_number number_start_def lex_defs)
qed

lemma unquote_unclosed: "unquote (concat (map escape_char s)) = None"
  by (induction s) (simp_all add: unquote_escape_char)

lemma parse_json_unclosed_string: "parse_json (dquote # concat (map escape_char s)) = None"
  by (simp add: parse_json_def parse_value_string unquote_unclosed)

lemma parse_json_second_value: "parse_json (serialize v @ '' '' @ serialize w) = None"
proof -
  obtain c t where w: "serialize w = c # t" "value_start c"
    using serialize_gap_start [of "[]" "[]" w] by (auto simp: serialize_gap_compact)
  have "parse_value (Suc (length (serialize v @ '' '' @ serialize w)))
      (serialize v @ '' '' @ serialize w) = Some (v, '' '' @ serialize w)"
    using fuel_value_le_length [of v] by (intro parse_value_serialize) (simp_all add: lex_defs)
  moreover from w have "skip_ws ('' '' @ serialize w) = c # t"
    using skip_ws_append [of "'' ''" "c # t"] by (simp add: is_json_space_def)
  ultimately show ?thesis by (simp add: parse_json_def)
qed

lemma parse_json_blank: "parse_json (replicate n (CHR '' '')) = None"
proof -
  have "skip_ws (replicate n (CHR '' '')) = []"
    by (simp add: skip_ws_def is_json_space_def)
  then show ?thesis by (simp add: parse_json_def parse_value.simps)
qed

end
