(* ===== verification/CSS_Number.thy ===== *)
theory CSS_Number
  imports Complex_Main Lexing
begin

text \<open>
  Numbers as CSS writes them in the values of the configuration: an optional
  sign, digits, and an optional fraction (\<^verbatim>\<open>0.5\<close>, \<^verbatim>\<open>-0.115\<close>, \<^verbatim>\<open>.5\<close>, \<^verbatim>\<open>12\<close>).
  This is the number token of CSS without its exponent part, so every text
  accepted here is a CSS number. A number is kept exactly, as an integer
  mantissa and the count of its fraction digits; \<open>dec_rat\<close> is the rational
  it denotes, and the comparisons are decided on integers.
\<close>

section \<open>Decimal numbers\<close>

datatype decimal = Decimal (mantissa: int) (scale: nat)

definition dec_rat :: "decimal \<Rightarrow> rat" where
  "dec_rat d = of_int (mantissa d) / 10 ^ scale d"

definition dec_of_nat :: "nat \<Rightarrow> decimal" where
  "dec_of_nat n = Decimal (int n) 0"

definition dec_neg :: "decimal \<Rightarrow> decimal" where
  "dec_neg d = Decimal (- mantissa d) (scale d)"

definition dec_le :: "decimal \<Rightarrow> decimal \<Rightarrow> bool" where
  "dec_le a b \<longleftrightarrow> mantissa a * 10 ^ scale b \<le> mantissa b * 10 ^ scale a"

definition dec_less :: "decimal \<Rightarrow> decimal \<Rightarrow> bool" where
  "dec_less a b \<longleftrightarrow> mantissa a * 10 ^ scale b < mantissa b * 10 ^ scale a"

definition dec_eq :: "decimal \<Rightarrow> decimal \<Rightarrow> bool" where
  "dec_eq a b \<longleftrightarrow> mantissa a * 10 ^ scale b = mantissa b * 10 ^ scale a"

definition dec_times :: "decimal \<Rightarrow> decimal \<Rightarrow> decimal" where
  "dec_times a b = Decimal (mantissa a * mantissa b) (scale a + scale b)"

lemmas dec_defs = dec_of_nat_def dec_neg_def dec_le_def dec_less_def dec_eq_def dec_times_def

lemma dec_rat_cross:
  "dec_rat a \<le> dec_rat b \<longleftrightarrow>
     (of_int (mantissa a) :: rat) * 10 ^ scale b \<le> of_int (mantissa b) * 10 ^ scale a"
  by (simp add: dec_rat_def field_simps)

lemma dec_le_iff: "dec_le a b \<longleftrightarrow> dec_rat a \<le> dec_rat b"
proof -
  have "(of_int (mantissa a) :: rat) * 10 ^ scale b \<le> of_int (mantissa b) * 10 ^ scale a
        \<longleftrightarrow> (of_int (mantissa a * 10 ^ scale b) :: rat) \<le> of_int (mantissa b * 10 ^ scale a)"
    by simp
  also have "\<dots> \<longleftrightarrow> mantissa a * 10 ^ scale b \<le> mantissa b * 10 ^ scale a"
    by (rule of_int_le_iff)
  finally show ?thesis by (simp add: dec_le_def dec_rat_cross)
qed

lemma dec_eq_iff: "dec_eq a b \<longleftrightarrow> dec_rat a = dec_rat b"
proof -
  have "dec_rat a = dec_rat b \<longleftrightarrow>
        (of_int (mantissa a) :: rat) * 10 ^ scale b = of_int (mantissa b) * 10 ^ scale a"
    by (simp add: dec_rat_def field_simps)
  also have "\<dots> \<longleftrightarrow>
        (of_int (mantissa a * 10 ^ scale b) :: rat) = of_int (mantissa b * 10 ^ scale a)"
    by simp
  also have "\<dots> \<longleftrightarrow> mantissa a * 10 ^ scale b = mantissa b * 10 ^ scale a"
    by (rule of_int_eq_iff)
  finally show ?thesis by (simp add: dec_eq_def)
qed

lemma dec_less_iff: "dec_less a b \<longleftrightarrow> dec_rat a < dec_rat b"
proof -
  have "dec_less a b \<longleftrightarrow> dec_le a b \<and> \<not> dec_eq a b"
    by (auto simp: dec_less_def dec_le_def dec_eq_def)
  then show ?thesis by (auto simp: dec_le_iff dec_eq_iff)
qed

lemma dec_rat_neg [simp]: "dec_rat (dec_neg d) = - dec_rat d"
  by (simp add: dec_rat_def dec_neg_def)

lemma dec_rat_of_nat [simp]: "dec_rat (dec_of_nat n) = of_nat n"
  by (simp add: dec_rat_def dec_of_nat_def)

lemma dec_rat_times [simp]: "dec_rat (dec_times a b) = dec_rat a * dec_rat b"
  by (simp add: dec_rat_def dec_times_def power_add)

lemma dec_le_refl [simp]: "dec_le a a"
  by (simp add: dec_le_def)

lemma dec_le_trans: "dec_le a b \<Longrightarrow> dec_le b c \<Longrightarrow> dec_le a c"
  by (simp add: dec_le_iff)

lemma dec_neg_neg [simp]: "dec_neg (dec_neg d) = d"
  by (simp add: dec_neg_def)

section \<open>Scanning a number\<close>

text \<open>
  \<open>scan_unsigned\<close> reads digits and, when a dot followed by a digit comes
  next, the fraction. A dot that no digit follows is not part of the number
  and is left in the rest. \<open>scan_number\<close> reads an optional sign first.
\<close>

definition scan_unsigned :: "decimal scanner" where
  "scan_unsigned s =
     (let ip = takeWhile is_digit s; r = dropWhile is_digit s
      in case r of
           c # f \<Rightarrow>
             if c = CHR ''.'' \<and> starts_with_digit f
             then Some (Decimal (int (nat_of_digits (ip @ takeWhile is_digit f)))
                          (length (takeWhile is_digit f)),
                        dropWhile is_digit f)
             else if ip = [] then None
             else Some (Decimal (int (nat_of_digits ip)) 0, r)
         | [] \<Rightarrow> if ip = [] then None else Some (Decimal (int (nat_of_digits ip)) 0, []))"

definition scan_number :: "decimal scanner" where
  "scan_number s =
     (case s of
        c # t \<Rightarrow>
          if c = CHR ''-'' then map_option (apfst dec_neg) (scan_unsigned t)
          else if c = CHR ''+'' then scan_unsigned t
          else scan_unsigned s
      | [] \<Rightarrow> None)"

lemmas number_defs = scan_number_def scan_unsigned_def dec_defs

lemma scan_unsigned_cases:
  assumes "scan_unsigned s = Some (d, r)"
  obtains (fraction) ip fp where "s = ip @ CHR ''.'' # fp @ r" and "fp \<noteq> []"
      and "list_all is_digit ip" and "list_all is_digit fp" and "\<not> starts_with_digit r"
      and "d = Decimal (int (nat_of_digits (ip @ fp))) (length fp)"
    | (integer) ip where "s = ip @ r" and "ip \<noteq> []" and "list_all is_digit ip"
      and "\<not> starts_with_digit r" and "d = Decimal (int (nat_of_digits ip)) 0"
proof -
  define ip where "ip = takeWhile is_digit s"
  define t where "t = dropWhile is_digit s"
  have s: "s = ip @ t" by (simp add: ip_def t_def)
  have ip: "list_all is_digit ip"
    by (auto simp: ip_def list_all_iff dest: set_takeWhileD)
  have t: "\<not> starts_with_digit t" by (simp add: t_def)
  show thesis
  proof (cases "\<exists>f. t = CHR ''.'' # f \<and> starts_with_digit f")
    case True
    then obtain f where f: "t = CHR ''.'' # f" "starts_with_digit f" by blast
    define fp where "fp = takeWhile is_digit f"
    from f(2) have "fp \<noteq> []"
      by (cases f) (auto simp: fp_def)
    moreover have "list_all is_digit fp"
      by (auto simp: fp_def list_all_iff dest: set_takeWhileD)
    moreover from assms f have "r = dropWhile is_digit f"
      and "d = Decimal (int (nat_of_digits (ip @ fp))) (length fp)"
      by (simp_all add: scan_unsigned_def Let_def ip_def [symmetric] t_def [symmetric] fp_def)
    moreover from this(1) have "f = fp @ r" and "\<not> starts_with_digit r"
      by (simp_all add: fp_def)
    ultimately show thesis using s f(1) ip by (intro fraction [of ip fp]) simp_all
  next
    case False
    with assms have "ip \<noteq> []" and "r = t" and "d = Decimal (int (nat_of_digits ip)) 0"
      by (auto simp: scan_unsigned_def Let_def ip_def [symmetric] t_def [symmetric]
          split: list.splits if_splits)
    with s ip t show thesis by (intro integer [of ip]) simp_all
  qed
qed

lemma scan_unsigned_shorter: "scan_unsigned s = Some (d, r) \<Longrightarrow> length r < length s"
  by (erule scan_unsigned_cases) auto

lemma scan_number_shorter: "scan_number s = Some (d, r) \<Longrightarrow> length r < length s"
  by (cases s) (auto simp: scan_number_def split: if_splits dest: scan_unsigned_shorter)

lemma scan_unsigned_nonneg: "scan_unsigned s = Some (d, r) \<Longrightarrow> 0 \<le> mantissa d"
  by (erule scan_unsigned_cases) auto

end
