(* ===== verification/CSS_Color.thy ===== *)
theory CSS_Color
  imports CSS_Number
begin

text \<open>
  The two colour notations that the configuration uses: six-digit hexadecimal
  colours (\<^verbatim>\<open>#1E1E1E\<close>) and the functional notation \<^verbatim>\<open>rgba(r, g, b, a)\<close> with
  three unsigned integer channels and a numeric alpha. Both are notations of
  CSS Color Level 3; the recognisers accept nothing else, so a text they
  accept is a CSS colour.

  A colour is decoded to its channels. The syntax puts no bound on a channel
  or on alpha (CSS clamps values out of range); \<open>in_gamut\<close> says that nothing
  has to be clamped.
\<close>

section \<open>Colours\<close>

datatype css_color = Color (red: nat) (green: nat) (blue: nat) (alpha: decimal)

definition in_gamut :: "css_color \<Rightarrow> bool" where
  "in_gamut c \<longleftrightarrow>
     red c \<le> 255 \<and> green c \<le> 255 \<and> blue c \<le> 255 \<and>
     dec_le (dec_of_nat 0) (alpha c) \<and> dec_le (alpha c) (dec_of_nat 1)"

definition opaque :: "css_color \<Rightarrow> bool" where
  "opaque c \<longleftrightarrow> dec_eq (alpha c) (dec_of_nat 1)"

section \<open>Hexadecimal notation\<close>

definition hex_byte :: "char \<Rightarrow> char \<Rightarrow> nat" where
  "hex_byte h l = 16 * hex_val h + hex_val l"

text \<open>
  A hexadecimal colour is a hash sign and exactly six hexadecimal digits; the
  text after it must not continue the name (\<^verbatim>\<open>#1E1E1Ex\<close> is no colour).
\<close>

definition scan_hex_color :: "css_color scanner" where
  "scan_hex_color s =
     (case strip_prefix ''#'' s of
        None \<Rightarrow> None
      | Some t \<Rightarrow>
          let ds = take 6 t; r = drop 6 t
          in if length ds = 6 \<and> list_all is_hex_digit ds \<and> \<not> starts_with_name_char r
             then Some (Color (hex_byte (ds ! 0) (ds ! 1)) (hex_byte (ds ! 2) (ds ! 3))
                          (hex_byte (ds ! 4) (ds ! 5)) (dec_of_nat 1), r)
             else None)"

section \<open>Functional notation\<close>

text \<open>
  A comma with optional spaces on both sides separates the arguments.
\<close>

definition scan_comma :: "string \<Rightarrow> string option" where
  "scan_comma s = map_option skip_spaces (strip_prefix '','' (skip_spaces s))"

definition scan_rgba :: "css_color scanner" where
  "scan_rgba s = do {
     s1 \<leftarrow> strip_prefix ''rgba('' s;
     (r, s2) \<leftarrow> scan_nat (skip_spaces s1);
     s3 \<leftarrow> scan_comma s2;
     (g, s4) \<leftarrow> scan_nat s3;
     s5 \<leftarrow> scan_comma s4;
     (b, s6) \<leftarrow> scan_nat s5;
     s7 \<leftarrow> scan_comma s6;
     (a, s8) \<leftarrow> scan_number s7;
     s9 \<leftarrow> strip_prefix '')'' (skip_spaces s8);
     Some (Color r g b a, s9)
   }"

section \<open>Colours in either notation\<close>

definition scan_color :: "css_color scanner" where
  "scan_color s = (case scan_hex_color s of Some r \<Rightarrow> Some r | None \<Rightarrow> scan_rgba s)"

text \<open>A whole text is a colour when a colour can be scanned and nothing is left.\<close>

definition parse_color :: "string \<Rightarrow> css_color option" where
  "parse_color s = (case scan_color s of Some (c, []) \<Rightarrow> Some c | _ \<Rightarrow> None)"

definition valid_color :: "string \<Rightarrow> bool" where
  "valid_color s \<longleftrightarrow> parse_color s \<noteq> None"

text \<open>A text is a displayable colour when it is a colour that needs no clamping.\<close>

definition displayable_color :: "string \<Rightarrow> bool" where
  "displayable_color s \<longleftrightarrow> (case parse_color s of Some c \<Rightarrow> in_gamut c | None \<Rightarrow> False)"

lemmas color_defs =
  displayable_color_def valid_color_def in_gamut_def parse_color_def scan_color_def
  scan_hex_color_def scan_rgba_def scan_comma_def hex_byte_def

section \<open>What a successful scan consumed\<close>

lemma scan_comma_shorter: "scan_comma s = Some r \<Longrightarrow> length r < length s"
proof -
  assume "scan_comma s = Some r"
  then obtain t where t: "strip_prefix '','' (skip_spaces s) = Some t" and r: "r = skip_spaces t"
    by (auto simp: scan_comma_def)
  from t have "skip_spaces s = '','' @ t" by (simp add: strip_prefix_Some_iff)
  then have "length t < length (skip_spaces s)" by simp
  with length_skip_spaces [of s] length_skip_spaces [of t] r show ?thesis by simp
qed

lemma scan_hex_color_shorter: "scan_hex_color s = Some (c, r) \<Longrightarrow> length r < length s"
  by (auto simp: scan_hex_color_def Let_def strip_prefix_Some_iff split: option.splits if_splits)

lemma scan_hex_color_opaque: "scan_hex_color s = Some (c, r) \<Longrightarrow> alpha c = dec_of_nat 1"
  by (auto simp: scan_hex_color_def Let_def split: option.splits if_splits)

lemma hex_byte_less: "is_hex_digit h \<Longrightarrow> is_hex_digit l \<Longrightarrow> hex_byte h l < 256"
  using is_hex_digit_val_less [of h] is_hex_digit_val_less [of l]
  by (simp add: hex_byte_def)

text \<open>
  A hexadecimal colour is always in gamut: two hexadecimal digits cannot
  spell more than 255.
\<close>

lemma scan_hex_color_in_gamut:
  assumes "scan_hex_color s = Some (c, r)"
  shows "in_gamut c"
proof -
  from assms obtain t where t: "strip_prefix ''#'' s = Some t" and len: "length (take 6 t) = 6"
    and hex: "list_all is_hex_digit (take 6 t)"
    and c: "c = Color (hex_byte (take 6 t ! 0) (take 6 t ! 1)) (hex_byte (take 6 t ! 2) (take 6 t ! 3))
                  (hex_byte (take 6 t ! 4) (take 6 t ! 5)) (dec_of_nat 1)"
    by (auto simp: scan_hex_color_def Let_def split: option.splits if_splits)
  from hex len have "\<And>i. i < 6 \<Longrightarrow> is_hex_digit (take 6 t ! i)"
    by (metis list_all_length)
  then have "hex_byte (take 6 t ! 0) (take 6 t ! 1) < 256"
    and "hex_byte (take 6 t ! 2) (take 6 t ! 3) < 256"
    and "hex_byte (take 6 t ! 4) (take 6 t ! 5) < 256"
    by (simp_all add: hex_byte_less)
  with c show ?thesis by (simp add: in_gamut_def dec_defs)
qed

lemma displayable_color_valid: "displayable_color s \<Longrightarrow> valid_color s"
  by (auto simp: displayable_color_def valid_color_def split: option.splits)

lemma parse_color_hex_in_gamut:
  "scan_hex_color s = Some (c, []) \<Longrightarrow> displayable_color s"
  by (simp add: displayable_color_def parse_color_def scan_color_def scan_hex_color_in_gamut)

end
