(* ===== verification/CSS_Length.thy ===== *)
theory CSS_Length
  imports CSS_Number
begin

text \<open>
  Dimensions: a number directly followed by a unit. The configuration writes
  lengths in \<^verbatim>\<open>px\<close>, the positions of gradient stops as percentages and the
  direction of a gradient as an angle in \<^verbatim>\<open>deg\<close>. The recognisers know a few
  more units of each kind; every text they accept is a dimension of CSS.
  A length may also be a zero without a unit.
\<close>

section \<open>Lengths\<close>

datatype length_unit = Px | Em | Rem

datatype css_length = Length (magnitude: decimal) (unit: length_unit)

definition length_units :: "(string \<times> length_unit) list" where
  "length_units = [(''px'', Px), (''em'', Em), (''rem'', Rem)]"

definition parse_length :: "string \<Rightarrow> css_length option" where
  "parse_length w =
     (case scan_number w of
        None \<Rightarrow> None
      | Some (d, r) \<Rightarrow>
          (case map_of length_units r of
             Some u \<Rightarrow> Some (Length d u)
           | None \<Rightarrow> if r = [] \<and> mantissa d = 0 then Some (Length d Px) else None))"

definition nonneg_length :: "css_length \<Rightarrow> bool" where
  "nonneg_length l \<longleftrightarrow> 0 \<le> mantissa (magnitude l)"

definition positive_length :: "css_length \<Rightarrow> bool" where
  "positive_length l \<longleftrightarrow> 0 < mantissa (magnitude l)"

definition zero_length :: css_length where
  "zero_length = Length (dec_of_nat 0) Px"

section \<open>Percentages\<close>

definition parse_percentage :: "string \<Rightarrow> decimal option" where
  "parse_percentage w =
     (case scan_number w of
        None \<Rightarrow> None
      | Some (d, r) \<Rightarrow> if r = ''%'' then Some d else None)"

section \<open>Angles\<close>

datatype angle_unit = Deg | Grad | Rad | Turn

datatype css_angle = Angle (amount: decimal) (angle_unit: angle_unit)

definition angle_units :: "(string \<times> angle_unit) list" where
  "angle_units = [(''deg'', Deg), (''grad'', Grad), (''rad'', Rad), (''turn'', Turn)]"

definition parse_angle :: "string \<Rightarrow> css_angle option" where
  "parse_angle w =
     (case scan_number w of
        None \<Rightarrow> None
      | Some (d, r) \<Rightarrow> map_option (Angle d) (map_of angle_units r))"

lemmas length_defs =
  parse_length_def parse_percentage_def parse_angle_def length_units_def angle_units_def
  nonneg_length_def positive_length_def zero_length_def

section \<open>What is accepted\<close>

lemma parse_length_SomeD:
  assumes "parse_length w = Some l"
  shows "\<exists>r. scan_number w = Some (magnitude l, r) \<and>
           (map_of length_units r = Some (unit l) \<or> r = [] \<and> mantissa (magnitude l) = 0)"
  using assms by (auto simp: parse_length_def split: option.splits if_splits)

lemma parse_length_unit_text:
  "map_of length_units r = Some u \<Longrightarrow> r \<in> {''px'', ''em'', ''rem''}"
  by (auto simp: length_units_def split: if_splits)

lemma parse_percentage_SomeD:
  "parse_percentage w = Some d \<Longrightarrow> scan_number w = Some (d, ''%'')"
  by (auto simp: parse_percentage_def split: option.splits if_splits)

lemma parse_angle_SomeD:
  assumes "parse_angle w = Some a"
  shows "\<exists>r. scan_number w = Some (amount a, r) \<and> map_of angle_units r = Some (angle_unit a)"
  using assms by (auto simp: parse_angle_def split: option.splits)

text \<open>No text is both a length and a percentage, or both a length and an angle.\<close>

lemma length_not_percentage:
  assumes "parse_length w = Some l"
  shows "parse_percentage w = None"
proof -
  from parse_length_SomeD [OF assms] obtain r
    where s: "scan_number w = Some (magnitude l, r)"
      and r: "map_of length_units r = Some (unit l) \<or> r = [] \<and> mantissa (magnitude l) = 0"
    by blast
  from r have "r \<noteq> ''%''" by (auto simp: length_units_def)
  with s show ?thesis by (simp add: parse_percentage_def)
qed

lemma length_not_angle:
  assumes "parse_length w = Some l"
  shows "parse_angle w = None"
proof -
  from parse_length_SomeD [OF assms] obtain r
    where s: "scan_number w = Some (magnitude l, r)"
      and r: "map_of length_units r = Some (unit l) \<or> r = [] \<and> mantissa (magnitude l) = 0"
    by blast
  from r have "r \<in> {''px'', ''em'', ''rem'', []}"
    by (auto dest: parse_length_unit_text)
  then have "map_of angle_units r = None"
    by (auto simp: angle_units_def)
  with s show ?thesis by (simp add: parse_angle_def)
qed

end
