(* ===== verification/CSS_Shadow.thy ===== *)
theory CSS_Shadow
  imports CSS_Color CSS_Length
begin

text \<open>
  The value of \<^verbatim>\<open>box-shadow\<close>: the keyword \<^verbatim>\<open>none\<close>, or a list of shadows
  separated by commas. One shadow is, in any order, an optional \<^verbatim>\<open>inset\<close>,
  two to four lengths in a row (horizontal and vertical offset, blur radius,
  spread distance) and an optional colour. The blur radius must not be
  negative. The configuration writes \<^verbatim>\<open>inset\<close> both before the lengths and
  after the colour; both are the same shadow.
\<close>

section \<open>The components of a shadow\<close>

datatype shadow_item = SInset | SLength css_length | SColor css_color

fun is_length_item :: "shadow_item \<Rightarrow> bool" where
  "is_length_item (SLength l) = True"
| "is_length_item i = False"

fun is_color_item :: "shadow_item \<Rightarrow> bool" where
  "is_color_item (SColor c) = True"
| "is_color_item i = False"

fun length_of_item :: "shadow_item \<Rightarrow> css_length" where
  "length_of_item (SLength l) = l"
| "length_of_item i = zero_length"

fun color_of_item :: "shadow_item \<Rightarrow> css_color option" where
  "color_of_item (SColor c) = Some c"
| "color_of_item i = None"

definition classify :: "string \<Rightarrow> shadow_item option" where
  "classify w =
     (if w = ''inset'' then Some SInset
      else case parse_length w of
        Some l \<Rightarrow> Some (SLength l)
      | None \<Rightarrow> map_option SColor (parse_color w))"

section \<open>One shadow\<close>

datatype shadow =
  Shadow (inset: bool) (offset_x: css_length) (offset_y: css_length)
         (blur: css_length) (spread: css_length) (shadow_color: "css_color option")

text \<open>
  \<open>assemble\<close> takes the components in the order they were written. The lengths
  must form one run of two to four; what stands before and after the run may
  hold at most one \<^verbatim>\<open>inset\<close> and at most one colour. A missing blur or spread
  is zero; a missing colour is left to the element's own colour.
\<close>

definition assemble :: "shadow_item list \<Rightarrow> shadow option" where
  "assemble items =
     (let before = takeWhile (\<lambda>i. \<not> is_length_item i) items;
          rest = dropWhile (\<lambda>i. \<not> is_length_item i) items;
          lens = map length_of_item (takeWhile is_length_item rest);
          after = dropWhile is_length_item rest;
          others = before @ after;
          cols = filter is_color_item others
      in if 2 \<le> length lens \<and> length lens \<le> 4
            \<and> \<not> list_ex is_length_item after
            \<and> length (filter (\<lambda>i. i = SInset) others) \<le> 1
            \<and> length cols \<le> 1
            \<and> nonneg_length ((lens @ [zero_length]) ! 2)
         then Some (Shadow (SInset \<in> set others) (lens ! 0) (lens ! 1)
                      ((lens @ [zero_length]) ! 2)
                      ((lens @ [zero_length, zero_length]) ! 3)
                      (case cols of [] \<Rightarrow> None | c # cs \<Rightarrow> color_of_item c))
         else None)"

definition parse_shadow :: "string \<Rightarrow> shadow option" where
  "parse_shadow s =
     (case those (map classify (words_of s)) of
        None \<Rightarrow> None
      | Some items \<Rightarrow> assemble items)"

section \<open>The list of shadows\<close>

definition parse_box_shadow :: "string \<Rightarrow> shadow list option" where
  "parse_box_shadow s =
     (if s = ''none'' then Some [] else those (map parse_shadow (split_commas s)))"

definition valid_box_shadow :: "string \<Rightarrow> bool" where
  "valid_box_shadow s \<longleftrightarrow> parse_box_shadow s \<noteq> None"

text \<open>
  A shadow list is displayable when it is valid and the colour of every
  shadow that has one is in gamut.
\<close>

definition displayable_shadow :: "shadow \<Rightarrow> bool" where
  "displayable_shadow sh \<longleftrightarrow> (case shadow_color sh of None \<Rightarrow> True | Some c \<Rightarrow> in_gamut c)"

definition displayable_box_shadow :: "string \<Rightarrow> bool" where
  "displayable_box_shadow s \<longleftrightarrow>
     (case parse_box_shadow s of None \<Rightarrow> False | Some shs \<Rightarrow> list_all displayable_shadow shs)"

lemmas shadow_defs =
  displayable_box_shadow_def displayable_shadow_def valid_box_shadow_def parse_box_shadow_def
  parse_shadow_def assemble_def classify_def

end
