(* ===== verification/CSS_Gradient.thy ===== *)
theory CSS_Gradient
  imports CSS_Color CSS_Length
begin

text \<open>
  The value \<^verbatim>\<open>linear-gradient(direction, stop, stop, ...)\<close>. The direction is
  optional: an angle, or \<^verbatim>\<open>to\<close> and one or two sides. A colour stop is a
  colour followed by at most two positions, each a length or a percentage.
  There must be at least two stops.
\<close>

section \<open>Directions\<close>

datatype side = Top | Bottom | Left | Right

datatype direction = ByAngle css_angle | ToSide side | ToCorner side side

definition sides :: "(string \<times> side) list" where
  "sides = [(''top'', Top), (''bottom'', Bottom), (''left'', Left), (''right'', Right)]"

fun vertical :: "side \<Rightarrow> bool" where
  "vertical Top = True"
| "vertical Bottom = True"
| "vertical s = False"

text \<open>A corner names one vertical and one horizontal side, in either order.\<close>

definition parse_direction :: "string list \<Rightarrow> direction option" where
  "parse_direction ws =
     (case ws of
        [w] \<Rightarrow> map_option ByAngle (parse_angle w)
      | [t, a] \<Rightarrow> if t = ''to'' then map_option ToSide (map_of sides a) else None
      | [t, a, b] \<Rightarrow>
          if t = ''to'' then
            (case (map_of sides a, map_of sides b) of
               (Some x, Some y) \<Rightarrow> if vertical x \<noteq> vertical y then Some (ToCorner x y) else None
             | _ \<Rightarrow> None)
          else None
      | _ \<Rightarrow> None)"

section \<open>Colour stops\<close>

datatype stop_position = AtLength css_length | AtPercent decimal

datatype color_stop = Stop (stop_color: css_color) (positions: "stop_position list")

definition parse_position :: "string \<Rightarrow> stop_position option" where
  "parse_position w =
     (case parse_percentage w of
        Some p \<Rightarrow> Some (AtPercent p)
      | None \<Rightarrow> map_option AtLength (parse_length w))"

definition parse_stop :: "string list \<Rightarrow> color_stop option" where
  "parse_stop ws =
     (case ws of
        [] \<Rightarrow> None
      | c # ps \<Rightarrow>
          (case (parse_color c, those (map parse_position ps)) of
             (Some col, Some pos) \<Rightarrow> if length pos \<le> 2 then Some (Stop col pos) else None
           | _ \<Rightarrow> None))"

section \<open>The gradient\<close>

datatype gradient = LinearGradient (towards: "direction option") (stops: "color_stop list")

text \<open>
  The first argument is the direction when it reads as one; otherwise it is
  the first colour stop.
\<close>

definition parse_arguments :: "string list list \<Rightarrow> gradient option" where
  "parse_arguments args =
     (case args of
        [] \<Rightarrow> None
      | a # rest \<Rightarrow>
          (case parse_direction a of
             Some d \<Rightarrow> map_option (LinearGradient (Some d)) (those (map parse_stop rest))
           | None \<Rightarrow> map_option (LinearGradient None) (those (map parse_stop args))))"

definition parse_gradient :: "string \<Rightarrow> gradient option" where
  "parse_gradient s = do {
     t \<leftarrow> strip_prefix ''linear-gradient('' s;
     body \<leftarrow> strip_suffix '')'' t;
     g \<leftarrow> parse_arguments (map words_of (split_commas body));
     if 2 \<le> length (stops g) then Some g else None
   }"

definition valid_gradient :: "string \<Rightarrow> bool" where
  "valid_gradient s \<longleftrightarrow> parse_gradient s \<noteq> None"

definition displayable_gradient :: "string \<Rightarrow> bool" where
  "displayable_gradient s \<longleftrightarrow>
     (case parse_gradient s of
        None \<Rightarrow> False
      | Some g \<Rightarrow> list_all (\<lambda>st. in_gamut (stop_color st)) (stops g))"

text \<open>
  The direction of a gradient is optional in CSS. \<open>gradient_towards d\<close> holds
  of a displayable gradient that states its direction, and states it as \<open>d\<close>.
\<close>

definition gradient_towards :: "direction \<Rightarrow> string \<Rightarrow> bool" where
  "gradient_towards d s \<longleftrightarrow>
     displayable_gradient s \<and> map_option towards (parse_gradient s) = Some (Some d)"

lemmas gradient_defs =
  gradient_towards_def displayable_gradient_def valid_gradient_def parse_gradient_def
  parse_arguments_def parse_stop_def parse_position_def parse_direction_def sides_def
  strip_suffix_def

lemma gradient_towards_displayable: "gradient_towards d s \<Longrightarrow> displayable_gradient s"
  by (simp add: gradient_towards_def)

lemma displayable_gradient_valid: "displayable_gradient s \<Longrightarrow> valid_gradient s"
  by (auto simp: displayable_gradient_def valid_gradient_def split: option.splits)

text \<open>A gradient without a direction is displayable, but runs towards nothing.\<close>

lemma gradient_towards_stated:
  "gradient_towards d s \<Longrightarrow> \<exists>g. parse_gradient s = Some g \<and> towards g = Some d"
  by (auto simp: gradient_towards_def)

lemma parse_gradient_two_stops: "parse_gradient s = Some g \<Longrightarrow> 2 \<le> length (stops g)"
  by (auto simp: parse_gradient_def split: Option.bind_splits if_splits)

lemma parse_gradient_text:
  "parse_gradient s = Some g \<Longrightarrow> \<exists>body. s = ''linear-gradient('' @ body @ '')''"
  by (auto simp: parse_gradient_def strip_prefix_Some_iff strip_suffix_Some_iff
      split: Option.bind_splits if_splits)

end
