(* ===== verification/CSS_Font.thy ===== *)
theory CSS_Font
  imports JS_Value CSS_Length
begin

text \<open>
  The typographic tokens. A font weight is a number from 1 to 1000. A font
  stack is an array of family names, which the framework joins with commas; a
  family name is a generic family or a sequence of identifiers, and a stack
  should end in a generic family so that some font is always found. Sizes,
  letter spacings and radii are lengths.
\<close>

section \<open>Font weights\<close>

definition valid_font_weight :: "js_value \<Rightarrow> bool" where
  "valid_font_weight v = (case v of JNumber n \<Rightarrow> 1 \<le> n \<and> n \<le> 1000 | _ \<Rightarrow> False)"

section \<open>Font families\<close>

definition generic_families :: "string list" where
  "generic_families =
     [''serif'', ''sans-serif'', ''monospace'', ''cursive'', ''fantasy'', ''system-ui'',
      ''ui-serif'', ''ui-sans-serif'', ''ui-monospace'', ''ui-rounded'', ''math'', ''emoji'',
      ''fangsong'']"

definition letters :: string where
  [lex_defs]: "letters = ''abcdefghijklmnopqrstuvwxyzABCDEFGHIJKLMNOPQRSTUVWXYZ''"

text \<open>
  An identifier is made of name characters and starts with a letter or an
  underscore, or with a hyphen that such a character follows.
\<close>

definition is_identifier :: "string \<Rightarrow> bool" where
  "is_identifier w \<longleftrightarrow>
     list_all is_name_char w \<and>
     (case w of
        [] \<Rightarrow> False
      | c # cs \<Rightarrow>
          c \<in> set letters \<or> c = CHR ''_'' \<or>
          (c = CHR ''-'' \<and> (case cs of [] \<Rightarrow> False | d # ds \<Rightarrow> d \<in> set letters \<or> d = CHR ''_'')))"

definition valid_family_name :: "string \<Rightarrow> bool" where
  "valid_family_name s \<longleftrightarrow>
     (let ws = split_top is_space 0 [] s in list_all is_identifier ws)"

definition valid_font_stack :: "js_value \<Rightarrow> bool" where
  "valid_font_stack v =
     (case v of
        JArray vs \<Rightarrow>
          vs \<noteq> [] \<and> list_all (string_token valid_family_name) vs \<and>
          string_token (\<lambda>s. s \<in> set generic_families) (last vs)
      | _ \<Rightarrow> False)"

section \<open>Lengths as tokens\<close>

definition length_token :: "(css_length \<Rightarrow> bool) \<Rightarrow> string \<Rightarrow> bool" where
  "length_token P s = (case parse_length s of None \<Rightarrow> False | Some l \<Rightarrow> P l)"

definition any_length :: "css_length \<Rightarrow> bool" where
  "any_length l = True"

lemmas font_defs =
  valid_font_weight_def valid_font_stack_def valid_family_name_def is_identifier_def
  generic_families_def length_token_def any_length_def

lemma length_token_mono:
  "length_token P s \<Longrightarrow> (\<And>l. P l \<Longrightarrow> Q l) \<Longrightarrow> length_token Q s"
  by (auto simp: length_token_def split: option.splits)

lemma positive_length_nonneg: "positive_length l \<Longrightarrow> nonneg_length l"
  by (simp add: positive_length_def nonneg_length_def)

lemma valid_font_stack_nonempty: "valid_font_stack (JArray vs) \<Longrightarrow> vs \<noteq> []"
  by (simp add: valid_font_stack_def)

lemma generic_family_is_valid_name: "s \<in> set generic_families \<Longrightarrow> valid_family_name s"
  by (auto simp: generic_families_def valid_family_name_def is_identifier_def lex_defs)

end
