(* ===== verification/Spec2Isabelle.thy ===== *)
theory Spec2Isabelle
  imports Tailwind_Config JS_Object JSON_Reload JSON_Reject CSS_Shadow CSS_Gradient CSS_Font
begin

text \<open>
  \<^bold>\<open>A verification development for the theme configuration of gradient-app.\<close>

  \<^bold>\<open>The program.\<close> The repository's source is one file,
  \<^verbatim>\<open>src/tailwind.config.js\<close>: an object literal assigned to
  \<^verbatim>\<open>module.exports\<close>. It has three top-level keys. \<^verbatim>\<open>content\<close> is an array
  of two glob patterns that tell the styling framework which files to scan.
  \<^verbatim>\<open>theme.extend\<close> is a table of design tokens in eight categories
  (\<^verbatim>\<open>colors\<close>, \<^verbatim>\<open>backgroundImage\<close>, \<^verbatim>\<open>boxShadow\<close>, \<^verbatim>\<open>fontFamily\<close>,
  \<^verbatim>\<open>fontSize\<close>, \<^verbatim>\<open>fontWeight\<close>, \<^verbatim>\<open>letterSpacing\<close>, \<^verbatim>\<open>borderRadius\<close>), each a
  mapping from token name to a literal value. \<^verbatim>\<open>plugins\<close> is an empty array.
  The file has no control flow and no operations: what can go wrong in it is
  what can go wrong in data. A key can be bound twice, so that one binding
  silently hides the other; a value can be misspelt, so that the framework
  emits a CSS declaration that browsers drop; a reader can ask for a path that
  does not exist. The development states and proves the absence of these
  faults for the file as it is.

  \<^bold>\<open>The theories.\<close>
  \<^item> \<open>Prelude\<close>: association lists read with JavaScript's override rule
    (\<open>lookup_last\<close>) and their relation to \<open>map_of\<close>; positions in a list
    (\<open>index_of\<close>); character classes and digit values; decimal spellings of
    natural numbers (\<open>nat_of_digits\<close>, \<open>digits_of_nat\<close>) with their round trip.
  \<^item> \<open>JS_Value\<close>: the datatype \<open>js_value\<close> of the four value forms the literal
    uses; \<open>own_prop\<close> (reading one own property of an object, an array or a
    string) and \<open>read_path\<close> (a chain of member accesses, with \<open>Undefined\<close>
    and \<open>TypeError\<close> as results); \<open>unique_keys\<close> (no object literal at any
    depth binds a key twice) and \<open>plain_keys\<close> (no key is an array index),
    both preserved along every path; \<open>own_keys\<close> (the order in which keys are
    enumerated); \<open>all_tokens\<close> and \<open>string_token\<close>, with which the conditions
    on token tables are stated. These model the runtime's member access and
    enumeration, not code of the repository.
  \<^item> \<open>JS_Object\<close>: \<open>evaluate\<close>, the object that the runtime builds from a
    literal by defining its bindings in order, and the lemmas that relate
    it to the literal (same reads, same enumeration, unique keys, identity on
    literals with unique keys).
  \<^item> \<open>Tailwind_Config\<close>: the literal itself. \<open>content\<close>, \<open>colors\<close>,
    \<open>backgroundImage\<close>, \<open>boxShadow\<close>, \<open>fontFamily\<close>, \<open>fontSize\<close>, \<open>fontWeight\<close>,
    \<open>letterSpacing\<close>, \<open>borderRadius\<close>, \<open>extend\<close>, \<open>theme\<close>, \<open>plugins\<close> and
    \<open>module_exports\<close> are the object and array literals of the source under
    the names of their keys, with every string transcribed character for
    character. The theory holds data only.
  \<^item> \<open>Lexing\<close>: scanners for literal text, white space, digits and keywords,
    and the splitting of a CSS value into its components at the top level of
    parentheses, each with a lemma about what it consumed.
  \<^item> \<open>CSS_Number\<close>, \<open>CSS_Color\<close>, \<open>CSS_Length\<close>, \<open>CSS_Shadow\<close>, \<open>CSS_Gradient\<close>,
    \<open>CSS_Font\<close>: executable recognisers for the CSS values that the
    configuration contains. They decode a text into a value (\<open>decimal\<close>,
    \<open>css_color\<close>, \<open>css_length\<close>, \<open>shadow\<close>, \<open>gradient\<close>) or reject it. They
    model no code of the repository: they are the formal reading of "is a
    syntactically valid CSS value" in section 8 of the specification. Each
    accepts a part of the CSS grammar (no exponents in numbers, lower-case
    keywords, the units \<^verbatim>\<open>px\<close>, \<^verbatim>\<open>em\<close>, \<^verbatim>\<open>rem\<close>, six-digit hexadecimal colours
    and \<^verbatim>\<open>rgba()\<close> with integer channels), so that acceptance implies validity.
  \<^item> \<open>JSON_Lexical\<close>, \<open>JSON_Text\<close>, \<open>JSON_Fuel\<close>, \<open>JSON_Reject\<close>,
    \<open>JSON_Reload\<close>: the configuration as JSON text. \<open>JSON_Lexical\<close> has the
    tokens: \<open>quote\<close> and \<open>unquote\<close> for strings with their escapes,
    \<open>show_int\<close> and \<open>parse_int\<close> for integers. \<open>JSON_Text\<close> has the writers
    \<open>serialize\<close> (without white space) and \<open>serialize_gap\<close> (laid out on
    several lines with a gap of indentation), the reader \<open>parse_value\<close>,
    \<open>parse_elements\<close>, \<open>parse_members\<close> with its entry \<open>parse_json\<close>, and the
    lemma that reading a written value gives the value, proved once for the
    laid-out text, of which the compact text is the case of the empty gap.
    \<open>JSON_Fuel\<close> shows that the fuel of the reader decides nothing.
    \<open>JSON_Reject\<close> has the families of texts that the reader rejects.
    \<open>JSON_Reload\<close> has \<open>stringify\<close>, \<open>stringify_space\<close> and \<open>reload\<close>, the
    operations as the runtime performs them (\<^verbatim>\<open>JSON.stringify\<close> without and
    with a number of spaces, and \<^verbatim>\<open>JSON.parse\<close>, on the loaded object),
    \<open>key_order\<close>, the order in which the members are written, and
    \<open>json_exact\<close>, the values for which the model of the text is meant.
    These theories model no code of the repository: the specification asks
    for a round trip of serialisation and reload (section 8) and names no
    format; JSON, the format of the runtime's own serialiser, is the choice
    made here.
  \<^item> \<open>Spec2Isabelle\<close> (this theory): the properties of the configuration.

  \<^bold>\<open>How the model corresponds to the code.\<close> An object literal
  \<^verbatim>\<open>{k1: v1, k2: v2}\<close> is \<open>JObject [(k1, v1), (k2, v2)]\<close>, an array literal
  \<^verbatim>\<open>[v1, v2]\<close> is \<open>JArray [v1, v2]\<close>, a string literal is \<open>JString\<close> of its
  characters and a number literal is \<open>JNumber\<close> of its value (the source's two
  numbers are integers). Quoted and unquoted keys are the same key, as in
  JavaScript. The comment on line 1 is not part of the value. Member access
  \<^verbatim>\<open>module.exports.theme.extend\<close> is \<open>read_path module_exports [''theme'', ''extend'']\<close>.

  \<^bold>\<open>What is proved.\<close> Each property below is preceded by its statement in
  words.
  \<^item> About the file: its keys are unique (C1) and plain (C13); it has the
    shape the framework expects (C12); the paths named by the specification
    read as specified (C2, C3, C4); every colour, shadow, gradient, font
    size, font weight, font stack, letter spacing and radius is a valid CSS
    value of its kind, with colours in gamut and gradients stating their
    direction (C5 to C11); one token is an array, which the specification's
    data model does not allow for (C14).
  \<^item> About the file as text: written and reloaded, it comes back unchanged
    (C15); its text is given character for character (C16); its strings are
    ASCII and its numbers safe integers (C24).
  \<^item> About every value as text: reading what was written gives the value
    (C17); the reloaded object is the runtime object in the order of
    enumeration and answers every read as the literal does (C18); the writer
    follows the runtime's rule, one member for each enumerated key with the
    value that the key reads (C19); the text laid out on several lines
    reloads as the compact one (C22).
  \<^item> About the reader: it returns a value for every text that any amount of
    fuel can read (C20), more fuel never changes a result (C21), and it
    rejects trailing commas, single quotation marks, leading zeros, unclosed
    strings, second values and blank texts, whatever the values in them
    (C23).

  \<^bold>\<open>Bounds and fuel.\<close> Every function but the reader of JSON text is
  total by structural recursion. The reader takes fuel, because a value
  nests values: \<open>parse_value\<close>, \<open>parse_elements\<close> and \<open>parse_members\<close> pass one
  unit less to each call they make and return \<open>None\<close> at fuel 0. \<open>parse_json\<close>
  starts them with the length of the text and one more. This is enough for
  every text: a reading that succeeds consumes at least as many characters
  as it needs fuel (\<open>parsers_within_length\<close> in \<open>JSON_Fuel\<close>), and more fuel
  gives the same result (\<open>parse_value_fuel_mono\<close>), so \<open>parse_json\<close> fails only
  on texts that no amount of fuel reads (C20). The numeric bounds are
  \<open>2\<^sup>3\<^sup>2 - 1\<close> in \<open>index_key\<close>, JavaScript's limit for array indices, 128 in
  \<open>decode_unicode\<close> and \<open>ascii_text\<close>, the ASCII range, and \<open>2\<^sup>5\<^sup>3 - 1\<close> in
  \<open>safe_integer\<close>, the limit below which a double holds an integer exactly.

  \<^bold>\<open>What is not modelled.\<close> The styling framework and the bundler that
  consume the configuration (class generation, file scanning and glob
  matching, purging, the merge of \<^verbatim>\<open>theme.extend\<close> into the framework's
  default theme) are not part of the repository. Properties that a value
  inherits from its prototype are outside \<open>own_prop\<close>: \<^verbatim>\<open>content.length\<close>
  reads 2 in the model as in the runtime, but \<^verbatim>\<open>content.map\<close> reads
  \<open>Undefined\<close> in the model and a function in the runtime. A number is an
  integer of any size, where the runtime has doubles; the source has the
  numbers 400 and 600 only. Of JSON, the model has what \<open>js_value\<close> has:
  strings, integers, arrays and objects. The literals \<^verbatim>\<open>true\<close>, \<^verbatim>\<open>false\<close>
  and \<^verbatim>\<open>null\<close>, numbers with a fraction or an exponent, and escapes of
  characters outside ASCII are rejected by the reader; the configuration
  contains none of them.
\<close>

section \<open>Unique token names\<close>

text \<open>
  C1. No object literal of the configuration, at any depth, binds a key twice:
  the top-level object, \<open>theme\<close>, \<open>theme.extend\<close> and each of the eight token
  tables have pairwise distinct keys. (Specification, section 3 and section 8:
  token names are unique within their category.)
\<close>

theorem config_unique_keys: "unique_keys module_exports"
  by (simp add: cfg_defs)

section \<open>Reading the configuration\<close>

text \<open>
  C2. Reading \<^verbatim>\<open>theme.extend.colors.background1\<close> from the exported object
  yields exactly the string \<^verbatim>\<open>#1E1E1E\<close>.
\<close>

theorem read_colors_background1:
  "read_path module_exports [''theme'', ''extend'', ''colors'', ''background1'']
     = Inr (JString ''#1E1E1E'')"
  by (simp add: cfg_defs)

text \<open>
  C3. Reading \<^verbatim>\<open>theme.extend.fontSize.small\<close> from the exported object yields
  exactly the string \<^verbatim>\<open>11.5px\<close>.
\<close>

theorem read_fontSize_small:
  "read_path module_exports [''theme'', ''extend'', ''fontSize'', ''small'']
     = Inr (JString ''11.5px'')"
  by (simp add: cfg_defs)

text \<open>
  C4. \<^verbatim>\<open>content\<close> is an array of exactly two entries, \<^verbatim>\<open>./index.html\<close> and
  \<^verbatim>\<open>./src/**/*.{svelte,js,ts,jsx,tsx}\<close>, in this order, and its \<^verbatim>\<open>length\<close>
  reads as 2.
\<close>

theorem read_content:
  "read_path module_exports [''content'']
     = Inr (JArray [JString ''./index.html'', JString ''./src/**/*.{svelte,js,ts,jsx,tsx}''])
   \<and> read_path module_exports [''content'', ''length''] = Inr (JNumber 2)"
  by (simp add: cfg_defs)

section \<open>The colour palette\<close>

text \<open>
  The recognisers are executable; \<open>css_eval\<close> collects their defining equations,
  with which the simplifier runs them on the literal's strings.
\<close>

lemmas css_eval =
  shadow_defs gradient_defs color_defs length_defs font_defs number_defs split_defs
  scan_defs lex_defs

text \<open>
  C5. Every value of \<^verbatim>\<open>theme.extend.colors\<close> is a string literal that is a
  colour of CSS, either a six-digit hexadecimal colour or \<^verbatim>\<open>rgba(r, g, b, a)\<close>,
  and no channel of it is out of range: red, green and blue are at most 255
  and alpha lies between 0 and 1. (Specification, section 8: every colour
  value is a syntactically valid hex or rgba string.)
\<close>

theorem colors_displayable: "all_tokens (string_token displayable_color) colors"
  by (simp add: colors_def css_eval)

section \<open>Shadows and gradients\<close>


text \<open>
  C6. Every value of \<^verbatim>\<open>theme.extend.boxShadow\<close> is a string literal that is a
  value of the CSS property \<^verbatim>\<open>box-shadow\<close>: a comma-separated list of shadows,
  each with two to four lengths, a blur radius that is not negative, at most
  one \<^verbatim>\<open>inset\<close> and at most one colour; and every colour in it is in gamut.
  (Specification, section 8: every shadow value is a syntactically valid CSS
  value.)
\<close>

theorem boxShadow_displayable: "all_tokens (string_token displayable_box_shadow) boxShadow"
  by (simp add: boxShadow_def css_eval Let_def)

text \<open>
  C7. Every value of \<^verbatim>\<open>theme.extend.backgroundImage\<close> is a string literal
  that is a \<^verbatim>\<open>linear-gradient(...)\<close> of CSS which states its direction, the
  angle \<^verbatim>\<open>180deg\<close>, and has at least two colour stops, every stop colour in
  gamut. (Specification, section 8: every gradient value is a syntactically
  valid CSS value.)
\<close>

theorem backgroundImage_displayable:
  "all_tokens (string_token (gradient_towards (ByAngle (Angle (dec_of_nat 180) Deg))))
     backgroundImage"
  by (simp add: backgroundImage_def css_eval)

section \<open>Typography and radii\<close>

text \<open>
  C8. Every value of \<^verbatim>\<open>theme.extend.fontSize\<close> is a string literal that is a
  CSS length greater than zero.
\<close>

theorem fontSize_positive:
  "all_tokens (string_token (length_token positive_length)) fontSize"
  by (simp add: fontSize_def css_eval)

text \<open>
  C9. Every value of \<^verbatim>\<open>theme.extend.fontWeight\<close> is a number literal from 1
  to 1000, the range of the CSS property \<^verbatim>\<open>font-weight\<close>.
\<close>

theorem fontWeight_valid: "all_tokens valid_font_weight fontWeight"
  by (simp add: fontWeight_def css_eval)

text \<open>
  C10. Every value of \<^verbatim>\<open>theme.extend.fontFamily\<close> is a non-empty array of
  string literals that are family names, and the last of them is a generic
  family, so that the stack always resolves to a font.
\<close>

theorem fontFamily_valid: "all_tokens valid_font_stack fontFamily"
  by (simp add: fontFamily_def css_eval)

text \<open>
  C11. Every value of \<^verbatim>\<open>theme.extend.letterSpacing\<close> is a string literal
  that is a CSS length (which may be negative), and every value of
  \<^verbatim>\<open>theme.extend.borderRadius\<close> is a string literal that is a CSS length that
  is not negative.
\<close>

theorem letterSpacing_borderRadius_lengths:
  "all_tokens (string_token (length_token any_length)) letterSpacing
   \<and> all_tokens (string_token (length_token nonneg_length)) borderRadius"
  by (simp add: letterSpacing_def borderRadius_def css_eval)

section \<open>The shape of the configuration\<close>

text \<open>
  C12. The exported object enumerates exactly the keys \<^verbatim>\<open>content\<close>, \<^verbatim>\<open>theme\<close>
  and \<^verbatim>\<open>plugins\<close>; \<^verbatim>\<open>theme\<close> enumerates exactly \<^verbatim>\<open>extend\<close>; \<^verbatim>\<open>theme.extend\<close>
  enumerates exactly the eight categories, in source order, and binds each of
  them to an object; \<^verbatim>\<open>plugins\<close> is an array of length 0. (Specification,
  section 6: the recognised top-level keys.)
\<close>

theorem config_shape:
  "own_keys module_exports = [''content'', ''theme'', ''plugins'']
   \<and> own_keys (JObject theme) = [''extend'']
   \<and> own_keys (JObject extend) =
       [''colors'', ''backgroundImage'', ''boxShadow'', ''fontFamily'', ''fontSize'',
        ''fontWeight'', ''letterSpacing'', ''borderRadius'']
   \<and> all_tokens is_object extend
   \<and> read_path module_exports [''plugins'', ''length''] = Inr (JNumber 0)"
  by (simp add: module_exports_def theme_def extend_def plugins_def first_occurrences_def
      is_index_key_def index_key_def lex_defs)

text \<open>
  C13. No key of the configuration, at any depth, is an array index. Such a
  key would be enumerated before all other keys of its table instead of at
  its place in the source.
\<close>

theorem config_plain_keys: "plain_keys module_exports"
  by (simp add: cfg_defs is_index_key_def index_key_def lex_defs)

text \<open>
  C14. \<^verbatim>\<open>theme.extend.fontFamily.sans\<close> is bound to an array of two strings,
  \<^verbatim>\<open>Inter\<close> and \<^verbatim>\<open>sans-serif\<close>: not every token value of the configuration is
  a string or a number.
\<close>

theorem fontFamily_sans_is_array:
  "read_path module_exports [''theme'', ''extend'', ''fontFamily'', ''sans'']
     = Inr (JArray [JString ''Inter'', JString ''sans-serif''])
   \<and> \<not> all_tokens (\<lambda>v. is_string v \<or> is_number v) fontFamily"
  by (simp add: cfg_defs)

section \<open>The configuration as text\<close>

text \<open>
  C15. Writing the configuration as JSON text and loading the text again gives
  the configuration back, unchanged. (Specification, section 8: the
  configuration survives the round trip of serialisation and reload.)
\<close>

theorem config_round_trip: "reload (stringify module_exports) = Some module_exports"
  by (rule reload_stringify) (simp_all add: cfg_defs is_index_key_def index_key_def lex_defs)

text \<open>
  C16. The text that the runtime writes for the configuration, character for
  character: the three top-level members in the order of the source, every
  table with its tokens in the order of the source, the two font weights as
  numbers, the font stack as an array of two strings and every other token
  as a string.
\<close>

theorem stringify_config_text:
  \<open>stringify module_exports =
     ''{"content":["./index.html","./src/**/*.{svelte,js,ts,jsx,tsx}"],"theme":{"ex'' @
       ''tend":{"colors":{"background1":"#1E1E1E","background2":"#2E2E2E","background'' @
       ''3":"#383838","background4":"#373737","background5":"#444444","backgroundInac'' @
       ''tive":"#2E2E2E","backgroundInverse":"#EBEBEB","backgroundInput":"rgba(0, 0, '' @
       ''0, 0.15)","actionPrimaryBackground":"#006ACC","actionPrimaryBackgroundHover"'' @
       '':"#187CD9","actionPrimaryText":"#FFFFFF","actionSecondaryText":"#E0E0E0","te'' @
       ''xt1":"#F5F5F5","text2":"#BDBDBD","text3":"#A3A3A3","textInactive":"#757575",'' @
       ''"textInverse":"#1E1E1E","border1":"rgba(255, 255, 255, 0.13)","border2":"rgb'' @
       ''a(255, 255, 255, 0.14)","border3":"rgba(255, 255, 255, 0.19)"},"backgroundIm'' @
       ''age":{"action-secondary":"linear-gradient(180deg, rgba(255, 255, 255, 0.12) '' @
       ''0%, rgba(255, 255, 255, 0.10) 100%)","action-secondary-hover":"linear-gradie'' @
       ''nt(180deg, rgba(255, 255, 255, 0.18) 0%, rgba(255, 255, 255, 0.16) 100%)"},"'' @
       ''boxShadow":{"action-colored":"0px 0.5px 1px 0px rgba(0, 0, 0, 0.8), 0px 0.5p'' @
       ''x 0.5px 0px rgba(255, 255, 255, 0.20) inset","action-secondary":"0px 0.5px 1'' @
       ''px rgba(0, 0, 0, 0.8), inset 0px 0.5px 0.5px rgba(255, 255, 255, 0.12)","inp'' @
       ''ut-inner":"0px 1px 1px -1px rgba(0, 0, 0, 0.13) inset, 0px 3px 3px -3px rgba'' @
       ''(0, 0, 0, 0.17) inset, 0px 4px 4px -4px rgba(0, 0, 0, 0.17) inset, 0px 8px 8'' @
       ''px -8px rgba(0, 0, 0, 0.17) inset, 0px 12px 12px -12px rgba(0, 0, 0, 0.13) i'' @
       ''nset, 0px 16px 16px -16px rgba(0, 0, 0, 0.13) inset","menu":"0px 0.5px 0.5px'' @
       '' 0px rgba(255, 255, 255, 0.12) inset, 0px 12px 24px 8px rgba(0, 0, 0, 0.04),'' @
       '' 0px 8px 16px 4px rgba(0, 0, 0, 0.04), 0px 4px 8px 2px rgba(0, 0, 0, 0.04), '' @
       ''0px 2px 6px 0px rgba(0, 0, 0, 0.04), 0px 0px 1px 0px rgba(0, 0, 0, 0.25)"},"'' @
       ''fontFamily":{"sans":["Inter","sans-serif"]},"fontSize":{"small":"11.5px","la'' @
       ''rge":"12.5px"},"fontWeight":{"normal":400,"medium":600},"letterSpacing":{"sm'' @
       ''all":"-0.115px"},"borderRadius":{"DEFAULT":"4px"}}},"plugins":[]}''\<close>
  by (simp add: cfg_defs json_write_eval lex_defs)

text \<open>
  C17. For every value, reading the text that was written for it gives the
  value: no escape, separator or sign is written that the reader does not
  take back, and the fuel of the reader is enough.
\<close>

theorem text_round_trip: "parse_json (serialize v) = Some v"
  by (rule parse_json_serialize)

text \<open>
  C18. For every literal, writing and reloading gives the object that the
  runtime builds from the literal, with the members of each object in the
  order of enumeration; and reading any path from the reloaded object gives
  what reading it from the literal gives, failures included.
\<close>

theorem reload_round_trip:
  "reload (stringify v) = Some (key_order (evaluate v)) \<and>
   read_path (key_order (evaluate v)) ks
     = map_sum id (\<lambda>w. key_order (evaluate w)) (read_path v ks)"
  by (simp add: reload_stringify_any read_path_reloaded)

text \<open>
  C19. What is written for a literal is what the runtime's rule for writing
  says, in terms of the reads and the enumeration of the literal itself: a
  string and a number are written as their tokens; an array as its bracket
  with the texts of its elements; an object as its brace with one member for
  each key that the object enumerates, in the order of enumeration (array
  indices first, ascending, then the other keys as first bound), each member
  the quoted key, a colon and the text of the value that the key reads (the
  last binding of a repeated key).
\<close>

theorem stringify_by_enumeration:
  "stringify (JString s) = quote s \<and> stringify (JNumber n) = show_int n \<and>
   stringify (JArray vs) = CHR ''['' # join_with (CHR '','') (map stringify vs) @ '']'' \<and>
   stringify (JObject kvs) =
     CHR ''{'' # join_with (CHR '','')
       (map (\<lambda>k. member_text k (stringify (the (own_prop (JObject kvs) k))))
          (own_keys (JObject kvs))) @ ''}''"
  by (simp only: stringify_leaf stringify_array stringify_object simp_thms)

section \<open>The reader\<close>

text \<open>
  C20. The fuel of the reader decides nothing: \<open>parse_json\<close> reads a text as a
  value exactly when some amount of fuel reads the value from the text and
  leaves nothing but white space. So the reader returns a value for every
  text that can be read at all.
\<close>

theorem reader_fuel_suffices:
  "parse_json s = Some v \<longleftrightarrow> (\<exists>n r. parse_value n s = Some (v, r) \<and> skip_ws r = [])"
  by (rule parse_json_iff)

text \<open>
  C21. A reading that succeeds with some fuel succeeds with the same value and
  the same rest with any greater fuel.
\<close>

theorem more_fuel_same_result:
  assumes "parse_value n s = Some x" and "n \<le> m"
  shows "parse_value m s = Some x"
  using assms by (rule parse_value_fuel_mono)

theorem more_fuel_same_result_witness:
  "parse_value 3 ''[42] '' = Some (JArray [JNumber 42], '' '') \<and> (3::nat) \<le> 7
   \<and> parse_value 7 ''[42] '' = Some (JArray [JNumber 42], '' '')"
proof -
  have p: "parse_value 3 ''[42] '' = Some (JArray [JNumber 42], '' '')"
    by (simp add: numeral_3_eq_3 json_read_eval dquote_def scan_defs lex_defs)
  have le: "(3::nat) \<le> 7" by simp
  from p le more_fuel_same_result [OF p le] show ?thesis by simp
qed

text \<open>
  C22. For every literal and every number of spaces, the text that the
  runtime writes on several lines, each element and member on a line of its
  own and indented by that number of spaces for each level, reloads as the
  same object as the text without white space. With no spaces the two texts
  are the same.
\<close>

theorem reload_laid_out_text:
  "reload (stringify_space n v) = Some (key_order (evaluate v)) \<and>
   stringify_space 0 v = stringify v"
  by (simp add: reload_stringify_space stringify_space_0)

text \<open>
  C23. The reader rejects what is not JSON, for every array, object, number,
  string and value: the text of an array or of an object with a comma before
  the closing bracket or brace, as the object literal of the source has after
  every last entry; a text that begins with a single quotation mark, as the
  strings of the source do; a number with a leading zero; a string that is
  not closed; a second value after the first; and a text of spaces only.
\<close>

theorem reader_rejects_malformed:
  "parse_json (CHR ''['' # join_with (CHR '','') (map serialize vs) @ '',]'') = None \<and>
   parse_json
     (CHR ''{'' # join_with (CHR '','') (map (\<lambda>kv. member_text (fst kv) (serialize (snd kv))) kvs)
        @ '',}'') = None \<and>
   parse_json (CHR 0x27 # t) = None \<and>
   parse_json (CHR ''0'' # digits_of_nat n) = None \<and>
   parse_json (dquote # concat (map escape_char s)) = None \<and>
   parse_json (serialize v @ '' '' @ serialize w) = None \<and>
   parse_json (replicate m (CHR '' '')) = None"
  by (simp only: parse_json_trailing_comma_array parse_json_trailing_comma_object
      parse_json_single_quote parse_json_leading_zero parse_json_unclosed_string
      parse_json_second_value parse_json_blank simp_thms)

text \<open>
  C24. Every string and every key of the configuration consists of characters
  with codes below 128, and its two numbers lie within \<open>2\<^sup>5\<^sup>3 - 1\<close> of zero.
  This is the range for which the model of the text is meant: there a
  character is one unit of the runtime's strings and an integer is held
  exactly by the runtime's numbers.
\<close>

theorem config_json_exact: "json_exact module_exports"
  by (simp add: cfg_defs json_exact_eval)

end
